theory Spec2Isabelle
  imports Main "HOL-Library.Word"
begin

section \<open>Errors\<close>

text \<open>
  The Go sources build their errors with \<^verbatim>\<open>caos_errs.ThrowPreconditionFailed(nil, id, message)\<close>,
  \<^verbatim>\<open>errors.ThrowInternal(nil, id, message)\<close> and the like: a kind, a short stable code and a
  message key. The kinds are those the sources and section 7 of the specification name.
  \<open>GoError\<close> is an error value made by \<^verbatim>\<open>fmt.Errorf\<close>, \<open>NilPointerDereference\<close> the Go run-time
  panic of a field read through a nil pointer.
\<close>

datatype error_kind =
    InvalidQuery
  | PreconditionFailed
  | Concurrency
  | Storage
  | UnknownEventType
  | DecodeError
  | Unsupported
  | Cancelled
  | Internal
  | InvalidArgument
  | Unimplemented
  | GoError
  | NilPointerDereference

datatype error = Throw (kind: error_kind) (code: string) (message: string)

section \<open>IDP OIDC configuration write model (package iam, src/unnamed/part\_001)\<close>

text \<open>
  \<^verbatim>\<open>oidc.ConfigAddedEvent\<close> and \<^verbatim>\<open>oidc.ConfigChangedEvent\<close> are declared in a package that is
  not part of the sources; the write model reads only their field \<^verbatim>\<open>IDPConfigID\<close>. The records
  are extensible, so every other field of the two events travels in the record's extension.
\<close>

record ConfigAddedEvent =
  IDPConfigID :: string

record ConfigChangedEvent =
  changed_IDPConfigID :: string

text \<open>
  \<^verbatim>\<open>eventstore.EventReader\<close> is an interface; the type switch of \<^verbatim>\<open>AppendEvents\<close> tells
  three classes of dynamic types apart: the two wrappers of package iam, and everything else
  (among them the plain \<^verbatim>\<open>*oidc.ConfigAddedEvent\<close> and \<^verbatim>\<open>*oidc.ConfigChangedEvent\<close> that the
  wrappers embed and that the write model hands on). The events are the non-nil pointers that
  the constructors and mappers of the file return.
\<close>

datatype ('a, 'c, 'o) EventReader =
    IDPOIDCConfigAddedEvent "'a ConfigAddedEvent_scheme"
  | IDPOIDCConfigChangedEvent "'c ConfigChangedEvent_scheme"
  | Oidc_ConfigAddedEvent "'a ConfigAddedEvent_scheme"
  | Oidc_ConfigChangedEvent "'c ConfigChangedEvent_scheme"
  | OtherEvent 'o

text \<open>
  \<^verbatim>\<open>type IDPOIDCConfigWriteModel struct { oidc.ConfigWriteModel; iamID string; idpConfigID string }\<close>.
  The embedded \<^verbatim>\<open>oidc.ConfigWriteModel\<close> is not part of the sources: its state is the type
  parameter \<open>'w\<close> and its method \<^verbatim>\<open>AppendEvents(events ...EventReader)\<close> is the parameter
  \<open>inner\<close> of the function below.
\<close>

record 'w IDPOIDCConfigWriteModel =
  ConfigWriteModel :: 'w
  iamID :: string
  idpConfigID :: string

definition NewIDPOIDCConfigWriteModel :: "'w \<Rightarrow> string \<Rightarrow> string \<Rightarrow> 'w IDPOIDCConfigWriteModel" where
  \<comment> \<open>the first argument is the zero value of the embedded write model\<close>
  "NewIDPOIDCConfigWriteModel zero iam_id idp_config_id =
     \<lparr>ConfigWriteModel = zero, iamID = iam_id, idpConfigID = idp_config_id\<rparr>"

text \<open>
  \<^verbatim>\<open>func (wm *IDPOIDCConfigWriteModel) AppendEvents(events ...eventstore.EventReader)\<close>:
  the \<^verbatim>\<open>for ... range\<close> loop is the recursion over the list, \<^verbatim>\<open>continue\<close> is the recursive
  call on the unchanged model.
\<close>

fun IDPOIDCConfigWriteModel_AppendEvents ::
  "(('a, 'c, 'o) EventReader list \<Rightarrow> 'w \<Rightarrow> 'w) \<Rightarrow> 'w IDPOIDCConfigWriteModel \<Rightarrow>
   ('a, 'c, 'o) EventReader list \<Rightarrow> 'w IDPOIDCConfigWriteModel" where
  "IDPOIDCConfigWriteModel_AppendEvents inner wm [] = wm"
| "IDPOIDCConfigWriteModel_AppendEvents inner wm (event # events) =
     (case event of
        IDPOIDCConfigAddedEvent e \<Rightarrow>
          if idpConfigID wm \<noteq> IDPConfigID e
          then IDPOIDCConfigWriteModel_AppendEvents inner wm events
          else IDPOIDCConfigWriteModel_AppendEvents inner
                 (wm\<lparr>ConfigWriteModel := inner [Oidc_ConfigAddedEvent e] (ConfigWriteModel wm)\<rparr>) events
      | IDPOIDCConfigChangedEvent e \<Rightarrow>
          if idpConfigID wm \<noteq> changed_IDPConfigID e
          then IDPOIDCConfigWriteModel_AppendEvents inner wm events
          else IDPOIDCConfigWriteModel_AppendEvents inner
                 (wm\<lparr>ConfigWriteModel := inner [Oidc_ConfigChangedEvent e] (ConfigWriteModel wm)\<rparr>) events
      | _ \<Rightarrow>
          IDPOIDCConfigWriteModel_AppendEvents inner
            (wm\<lparr>ConfigWriteModel := inner [event] (ConfigWriteModel wm)\<rparr>) events)"

text \<open>
  The claim's side of the comparison, written from its words: an event is forwarded if and
  only if it is not one of the two wrappers with a foreign \<^verbatim>\<open>IDPConfigID\<close>; what the inner
  model receives for a wrapper is the embedded oidc event, for any other event the event itself.
\<close>

definition is_forwarded :: "string \<Rightarrow> ('a, 'c, 'o) EventReader \<Rightarrow> bool" where
  "is_forwarded idp event =
     (case event of
        IDPOIDCConfigAddedEvent e \<Rightarrow> IDPConfigID e = idp
      | IDPOIDCConfigChangedEvent e \<Rightarrow> changed_IDPConfigID e = idp
      | _ \<Rightarrow> True)"

definition embedded_event :: "('a, 'c, 'o) EventReader \<Rightarrow> ('a, 'c, 'o) EventReader" where
  "embedded_event event =
     (case event of
        IDPOIDCConfigAddedEvent e \<Rightarrow> Oidc_ConfigAddedEvent e
      | IDPOIDCConfigChangedEvent e \<Rightarrow> Oidc_ConfigChangedEvent e
      | _ \<Rightarrow> event)"

definition forwarded_events ::
  "string \<Rightarrow> ('a, 'c, 'o) EventReader list \<Rightarrow> ('a, 'c, 'o) EventReader list" where
  "forwarded_events idp events = map embedded_event (filter (is_forwarded idp) events)"

section \<open>Search queries (package eventstore)\<close>

text \<open>
  Modelled from the spec: \<^verbatim>\<open>SearchQueryFactory\<close>, its constructor \<^verbatim>\<open>NewSearchQueryFactory\<close> and
  its fluent setters are not part of the sources; the tests build the struct with the fields
  \<^verbatim>\<open>aggregateTypes\<close> and \<^verbatim>\<open>columns\<close>, \<^verbatim>\<open>member.go\<close> calls \<^verbatim>\<open>AggregateIDs\<close> and \<^verbatim>\<open>EventData\<close>.
  The fields are those of the query of section 3 of the specification: column set, limit,
  ordering, aggregate types, aggregate ids, event types, resource owner, sequence bounds
  and data predicates. A setter stores its argument in its field and returns the factory.
\<close>

datatype Columns = ColumnsEvent | ColumnsMaxSequence

record SearchQueryFactory =
  columns :: Columns
  limit :: "64 word"
  desc :: bool
  aggregateTypes :: "string list"
  aggregateIDs :: "string list"
  eventTypes :: "string list"
  resourceOwner :: string
  sequenceGreater :: "64 word"
  sequenceLess :: "64 word"
  dataPredicates :: "(string \<times> string) list"

definition NewSearchQueryFactory :: "Columns \<Rightarrow> string list \<Rightarrow> SearchQueryFactory" where
  "NewSearchQueryFactory cols aggregate_types =
     \<lparr>columns = cols, limit = 0, desc = False, aggregateTypes = aggregate_types,
      aggregateIDs = [], eventTypes = [], resourceOwner = [], sequenceGreater = 0,
      sequenceLess = 0, dataPredicates = []\<rparr>"

definition AggregateIDs :: "string list \<Rightarrow> SearchQueryFactory \<Rightarrow> SearchQueryFactory" where
  "AggregateIDs ids factory = factory\<lparr>aggregateIDs := ids\<rparr>"

definition EventData :: "(string \<times> string) list \<Rightarrow> SearchQueryFactory \<Rightarrow> SearchQueryFactory" where
  \<comment> \<open>the argument is a Go \<^verbatim>\<open>map[string]interface{}\<close>, here with string values, as a list of pairs\<close>
  "EventData query factory = factory\<lparr>dataPredicates := query\<rparr>"

section \<open>Event payloads and JSON (package eventstore, encoding/json)\<close>

text \<open>
  What an event's \<^verbatim>\<open>Data() interface{}\<close> can return, as far as the kinds matter that the
  specification and \<^verbatim>\<open>Test_eventData\<close> tell apart: the nil interface, a \<^verbatim>\<open>[]byte\<close>, and any other
  Go value. A Go value is a scalar (string, integer, boolean), a struct (its exported fields
  by their JSON names, in declaration order), a map with string keys (in key order, which is
  the order \<^verbatim>\<open>encoding/json\<close> writes), a slice, a non-nil pointer to a value, or a value that
  \<^verbatim>\<open>encoding/json\<close> cannot encode (a channel). \<open>GoNull\<close> is a nil field inside such a value.
\<close>

datatype go_value =
    GoNull
  | GoString string
  | GoInt int
  | GoBool bool
  | GoStruct "(string \<times> go_value) list"
  | GoMap "(string \<times> go_value) list"
  | GoSlice "go_value list"
  | GoPtr go_value
  | GoChan

datatype payload = NoData | JSONBytes string | Value go_value

text \<open>
  \<^verbatim>\<open>json.Marshal\<close> of the Go standard library on these values: \<open>None\<close> is its error
  (\<^verbatim>\<open>UnsupportedTypeError\<close>). In a string the quote and the backslash are written behind a
  backslash, line feed, carriage return and tab as \<^verbatim>\<open>\n\<close>, \<^verbatim>\<open>\r\<close>, \<^verbatim>\<open>\t\<close>, and every other
  byte below \<^verbatim>\<open>0x20\<close> as well as \<^verbatim>\<open><\<close>, \<^verbatim>\<open>>\<close> and \<^verbatim>\<open>&\<close> as \<^verbatim>\<open>\u00XX\<close>; the strings are ASCII.
\<close>

fun decimal :: "nat \<Rightarrow> string" where
  "decimal n =
     (if n < 10 then [char_of (n + 48)] else decimal (n div 10) @ [char_of (n mod 10 + 48)])"

definition json_int :: "int \<Rightarrow> string" where
  "json_int i = (if i < 0 then CHR ''-'' # decimal (nat (- i)) else decimal (nat i))"

definition hex_digit :: "nat \<Rightarrow> char" where
  "hex_digit n = ''0123456789abcdef'' ! n"

definition json_escape :: "char \<Rightarrow> string" where
  "json_escape c =
     (if c = CHR 0x22 \<or> c = CHR 0x5C then [CHR 0x5C, c]
      else if c = CHR 0x0A then [CHR 0x5C, CHR ''n'']
      else if c = CHR 0x0D then [CHR 0x5C, CHR ''r'']
      else if c = CHR 0x09 then [CHR 0x5C, CHR ''t'']
      else if of_char c < (32 :: nat) \<or> c \<in> set ''<>&''
      then [CHR 0x5C, CHR ''u'', CHR ''0'', CHR ''0'',
            hex_digit (of_char c div 16), hex_digit (of_char c mod 16)]
      else [c])"

definition json_string :: "string \<Rightarrow> string" where
  "json_string s = CHR 0x22 # concat (map json_escape s) @ [CHR 0x22]"

fun join_with_comma :: "string list \<Rightarrow> string" where
  "join_with_comma [] = []"
| "join_with_comma [x] = x"
| "join_with_comma (x # y # ys) = x @ CHR '','' # join_with_comma (y # ys)"

fun json_Marshal :: "go_value \<Rightarrow> string option"
  and marshal_members :: "(string \<times> go_value) list \<Rightarrow> string list option"
  and marshal_elements :: "go_value list \<Rightarrow> string list option" where
  "json_Marshal GoNull = Some ''null''"
| "json_Marshal (GoString s) = Some (json_string s)"
| "json_Marshal (GoInt i) = Some (json_int i)"
| "json_Marshal (GoBool b) = Some (if b then ''true'' else ''false'')"
| "json_Marshal (GoStruct struct_fields) =
     (case marshal_members struct_fields of
        None \<Rightarrow> None
      | Some members \<Rightarrow> Some (CHR ''{'' # join_with_comma members @ ''}''))"
| "json_Marshal (GoMap entries) =
     (case marshal_members entries of
        None \<Rightarrow> None
      | Some members \<Rightarrow> Some (CHR ''{'' # join_with_comma members @ ''}''))"
| "json_Marshal (GoSlice elements) =
     (case marshal_elements elements of
        None \<Rightarrow> None
      | Some texts \<Rightarrow> Some (CHR ''['' # join_with_comma texts @ '']''))"
| "json_Marshal (GoPtr v) = json_Marshal v"
| "json_Marshal GoChan = None"
| "marshal_members [] = Some []"
| "marshal_members ((name, v) # rest) =
     (case json_Marshal v of
        None \<Rightarrow> None
      | Some text \<Rightarrow>
         (case marshal_members rest of
            None \<Rightarrow> None
          | Some texts \<Rightarrow> Some ((json_string name @ CHR '':'' # text) # texts)))"
| "marshal_elements [] = Some []"
| "marshal_elements (v # rest) =
     (case json_Marshal v of
        None \<Rightarrow> None
      | Some text \<Rightarrow>
         (case marshal_elements rest of
            None \<Rightarrow> None
          | Some texts \<Rightarrow> Some (text # texts)))"

text \<open>
  \<^verbatim>\<open>json.Valid\<close> of the Go standard library: a scanner over the bytes with a stack of the open
  objects and arrays, following the grammar of RFC 8259 (values, strings with escapes,
  numbers, the three literals); objects and arrays may be nested 10000 deep and no deeper.
\<close>

datatype json_nesting = InObject | InArray

datatype json_state =
    ExpectValue
  | ExpectValueOrEnd
  | ExpectKeyOrEnd
  | ExpectKey
  | ExpectColon
  | AfterValue
  | InString bool
  | InEscape bool
  | InUnicode bool nat
  | InLiteral string
  | NumMinus
  | NumZero
  | NumInt
  | NumDot
  | NumFrac
  | NumE
  | NumESign
  | NumExp

definition is_space :: "char \<Rightarrow> bool" where
  "is_space c = (c = CHR '' '' \<or> c = CHR 0x09 \<or> c = CHR 0x0A \<or> c = CHR 0x0D)"

definition is_digit :: "char \<Rightarrow> bool" where
  "is_digit c = (c \<in> set ''0123456789'')"

definition is_hex :: "char \<Rightarrow> bool" where
  "is_hex c = (c \<in> set ''0123456789abcdefABCDEF'')"

definition after_value :: "json_nesting list \<Rightarrow> char \<Rightarrow> (json_state \<times> json_nesting list) option" where
  "after_value stack c =
     (if is_space c then Some (AfterValue, stack)
      else if c = CHR '','' then
        (case stack of
           [] \<Rightarrow> None
         | InObject # _ \<Rightarrow> Some (ExpectKey, stack)
         | InArray # _ \<Rightarrow> Some (ExpectValue, stack))
      else if c = CHR ''}'' then
        (case stack of InObject # rest \<Rightarrow> Some (AfterValue, rest) | _ \<Rightarrow> None)
      else if c = CHR '']'' then
        (case stack of InArray # rest \<Rightarrow> Some (AfterValue, rest) | _ \<Rightarrow> None)
      else None)"

definition begin_value :: "json_nesting list \<Rightarrow> char \<Rightarrow> (json_state \<times> json_nesting list) option" where
  "begin_value stack c =
     (if c = CHR ''{'' then
        (if length stack < 10000 then Some (ExpectKeyOrEnd, InObject # stack) else None)
      else if c = CHR ''['' then
        (if length stack < 10000 then Some (ExpectValueOrEnd, InArray # stack) else None)
      else if c = CHR 0x22 then Some (InString False, stack)
      else if c = CHR ''-'' then Some (NumMinus, stack)
      else if c = CHR ''0'' then Some (NumZero, stack)
      else if is_digit c then Some (NumInt, stack)
      else if c = CHR ''t'' then Some (InLiteral ''rue'', stack)
      else if c = CHR ''f'' then Some (InLiteral ''alse'', stack)
      else if c = CHR ''n'' then Some (InLiteral ''ull'', stack)
      else None)"

fun json_step :: "json_state \<times> json_nesting list \<Rightarrow> char \<Rightarrow> (json_state \<times> json_nesting list) option" where
  "json_step (ExpectValue, stack) c =
     (if is_space c then Some (ExpectValue, stack) else begin_value stack c)"
| "json_step (ExpectValueOrEnd, stack) c =
     (if is_space c then Some (ExpectValueOrEnd, stack)
      else if c = CHR '']'' then Some (AfterValue, tl stack)
      else begin_value stack c)"
| "json_step (ExpectKeyOrEnd, stack) c =
     (if is_space c then Some (ExpectKeyOrEnd, stack)
      else if c = CHR ''}'' then Some (AfterValue, tl stack)
      else if c = CHR 0x22 then Some (InString True, stack)
      else None)"
| "json_step (ExpectKey, stack) c =
     (if is_space c then Some (ExpectKey, stack)
      else if c = CHR 0x22 then Some (InString True, stack)
      else None)"
| "json_step (ExpectColon, stack) c =
     (if is_space c then Some (ExpectColon, stack)
      else if c = CHR '':'' then Some (ExpectValue, stack)
      else None)"
| "json_step (AfterValue, stack) c = after_value stack c"
| "json_step (InString key, stack) c =
     (if c = CHR 0x22 then Some (if key then ExpectColon else AfterValue, stack)
      else if c = CHR 0x5C then Some (InEscape key, stack)
      else if of_char c < (32 :: nat) then None
      else Some (InString key, stack))"
| "json_step (InEscape key, stack) c =
     (if c = CHR ''u'' then Some (InUnicode key 4, stack)
      else if c = CHR 0x22 \<or> c = CHR 0x5C \<or> c \<in> set ''/bfnrt'' then Some (InString key, stack)
      else None)"
| "json_step (InUnicode key n, stack) c =
     (if is_hex c then Some (if n \<le> 1 then InString key else InUnicode key (n - 1), stack)
      else None)"
| "json_step (InLiteral rest, stack) c =
     (case rest of
        [] \<Rightarrow> None
      | x # xs \<Rightarrow> if c = x then Some (if xs = [] then AfterValue else InLiteral xs, stack) else None)"
| "json_step (NumMinus, stack) c =
     (if c = CHR ''0'' then Some (NumZero, stack)
      else if is_digit c then Some (NumInt, stack)
      else None)"
| "json_step (NumZero, stack) c =
     (if c = CHR ''.'' then Some (NumDot, stack)
      else if c = CHR ''e'' \<or> c = CHR ''E'' then Some (NumE, stack)
      else after_value stack c)"
| "json_step (NumInt, stack) c =
     (if is_digit c then Some (NumInt, stack)
      else if c = CHR ''.'' then Some (NumDot, stack)
      else if c = CHR ''e'' \<or> c = CHR ''E'' then Some (NumE, stack)
      else after_value stack c)"
| "json_step (NumDot, stack) c = (if is_digit c then Some (NumFrac, stack) else None)"
| "json_step (NumFrac, stack) c =
     (if is_digit c then Some (NumFrac, stack)
      else if c = CHR ''e'' \<or> c = CHR ''E'' then Some (NumE, stack)
      else after_value stack c)"
| "json_step (NumE, stack) c =
     (if c = CHR ''+'' \<or> c = CHR ''-'' then Some (NumESign, stack)
      else if is_digit c then Some (NumExp, stack)
      else None)"
| "json_step (NumESign, stack) c = (if is_digit c then Some (NumExp, stack) else None)"
| "json_step (NumExp, stack) c =
     (if is_digit c then Some (NumExp, stack) else after_value stack c)"

fun json_scan :: "json_state \<times> json_nesting list \<Rightarrow> string \<Rightarrow> (json_state \<times> json_nesting list) option" where
  "json_scan st [] = Some st"
| "json_scan st (c # cs) = (case json_step st c of None \<Rightarrow> None | Some st' \<Rightarrow> json_scan st' cs)"

definition json_Valid :: "string \<Rightarrow> bool" where
  "json_Valid text =
     (case json_scan (ExpectValue, []) text of
        None \<Rightarrow> False
      | Some (st, stack) \<Rightarrow> stack = [] \<and> st \<in> {AfterValue, NumZero, NumInt, NumFrac, NumExp})"

text \<open>A text is a JSON object when it is valid JSON and its first byte after white space opens an object.\<close>

definition is_json_object :: "string \<Rightarrow> bool" where
  "is_json_object text =
     (json_Valid text \<and> (case dropWhile is_space text of [] \<Rightarrow> False | c # _ \<Rightarrow> c = CHR ''{''))"

text \<open>
  The Go kinds that marshal as a JSON object ("map or struct-like"), looked at through
  pointers, and the scalar kinds, looked at through pointers as well.
\<close>

fun is_object_kind :: "go_value \<Rightarrow> bool" where
  "is_object_kind (GoStruct struct_fields) = True"
| "is_object_kind (GoMap entries) = True"
| "is_object_kind (GoPtr v) = is_object_kind v"
| "is_object_kind _ = False"

fun is_scalar :: "go_value \<Rightarrow> bool" where
  "is_scalar (GoString s) = True"
| "is_scalar (GoInt i) = True"
| "is_scalar (GoBool b) = True"
| "is_scalar (GoPtr v) = is_scalar v"
| "is_scalar _ = False"

text \<open>
  Modelled from the spec: \<^verbatim>\<open>eventData\<close>, which serialises the payload of an event at push time,
  is not part of the sources (only \<^verbatim>\<open>Test_eventData\<close> is). Section 6: "Payloads must marshal as
  a JSON object (map or struct-like); scalars and arrays at the top level are rejected at push
  time. null payload is legal and stored as SQL NULL." The result is the \<^verbatim>\<open>data\<close> column:
  \<open>None\<close> is the nil byte slice. Bytes are taken as they are when they are a JSON object.
\<close>

definition eventData :: "payload \<Rightarrow> error + string option" where
  "eventData d =
     (case d of
        NoData \<Rightarrow> Inr None
      | JSONBytes text \<Rightarrow>
          if is_json_object text then Inr (Some text)
          else Inl (Throw InvalidArgument [] [])
      | Value v \<Rightarrow>
          if is_object_kind v then
            (case json_Marshal v of
               None \<Rightarrow> Inl (Throw InvalidArgument [] [])
             | Some text \<Rightarrow> Inr (Some text))
          else Inl (Throw InvalidArgument [] []))"

section \<open>Events and aggregates (package eventstore)\<close>

text \<open>
  \<^verbatim>\<open>repository.Event\<close>, the record handed to the persistence port, with the fields the tests
  set and \<^verbatim>\<open>compareEvents\<close> reads. \<^verbatim>\<open>PreviousEvent\<close> is a pointer to another
  \<^verbatim>\<open>repository.Event\<close>: events live in a heap, a pointer is the address of its event in the
  heap and \<open>None\<close> is nil. A heap is the list of its events, the address is the position.
\<close>

type_synonym addr = nat

record repository_Event =
  AggregateID :: string
  AggregateType :: string
  CheckPreviousSequence :: bool
  Data :: "string option"
  EditorService :: string
  EditorUser :: string
  ResourceOwner :: string
  Type :: string
  Version :: string
  PreviousEvent :: "addr option"
  PreviousSequence :: "64 word"
  Sequence :: "64 word"

type_synonym heap = "repository_Event list"

text \<open>
  The interfaces \<^verbatim>\<open>Event\<close> and \<^verbatim>\<open>aggregater\<close> of package eventstore, as \<^verbatim>\<open>testEvent\<close> and
  \<^verbatim>\<open>testAggregate\<close> implement them: each record holds what the methods of one value return.
\<close>

record Event =
  event_CheckPrevious :: bool
  event_EditorService :: string
  event_EditorUser :: string
  event_Type :: string
  event_Data :: payload
  event_PreviousSequence :: "64 word"

record aggregater =
  aggregate_ID :: string
  aggregate_Type :: string
  aggregate_Events :: "Event list"
  aggregate_ResourceOwner :: string
  aggregate_Version :: string
  aggregate_PreviousSequence :: "64 word"

text \<open>
  Modelled from the spec: the step of \<^verbatim>\<open>Eventstore.aggregatesToEvents\<close> that turns the events
  of one aggregate into repository events is not part of the sources. The repository events
  are made in the order supplied (invariant 6), each payload is serialised with \<^verbatim>\<open>eventData\<close>,
  and the first payload that is rejected ends the call with its error. The columns are those
  of section 6; which interface method fills which column is what the expected events of the
  test show, but for the previous sequence, which is the watermark of the aggregate
  (section 3), and the sequence, which the log assigns at append time. Every event is newly
  allocated, at the end of the heap, and is not linked yet: \<open>newEvent\<close> is the struct literal,
  \<open>previousEvent\<close> its field \<^verbatim>\<open>PreviousEvent\<close>.
\<close>

definition newEvent :: "aggregater \<Rightarrow> Event \<Rightarrow> string option \<Rightarrow> addr option \<Rightarrow> repository_Event" where
  "newEvent aggregate event data previousEvent =
     \<lparr>AggregateID = aggregate_ID aggregate,
      AggregateType = aggregate_Type aggregate,
      CheckPreviousSequence = event_CheckPrevious event,
      Data = data,
      EditorService = event_EditorService event,
      EditorUser = event_EditorUser event,
      ResourceOwner = aggregate_ResourceOwner aggregate,
      Type = event_Type event,
      Version = aggregate_Version aggregate,
      PreviousEvent = previousEvent,
      PreviousSequence = aggregate_PreviousSequence aggregate,
      Sequence = 0\<rparr>"

fun aggregateToEvents ::
  "aggregater \<Rightarrow> Event list \<Rightarrow> addr list \<times> heap \<Rightarrow> error + addr list \<times> heap" where
  "aggregateToEvents aggregate [] (events, h) = Inr (events, h)"
| "aggregateToEvents aggregate (event # rest) (events, h) =
     (case eventData (event_Data event) of
        Inl err \<Rightarrow> Inl err
      | Inr data \<Rightarrow>
         aggregateToEvents aggregate rest
           (events @ [length h], h @ [newEvent aggregate event data None]))"


subsection \<open>The helpers of the tests (src/unnamed/part\_002)\<close>

text \<open>
  \<^verbatim>\<open>linkEvents\<close>: the loop \<^verbatim>\<open>for i := 1; i < len(events); i++ { events[i].PreviousEvent = events[i-1] }\<close>
  writes through the pointers, so it changes the heap. \<^verbatim>\<open>combineEventLists\<close> appends the lists
  and writes nothing.
\<close>

definition linkEvents :: "addr list \<Rightarrow> heap \<Rightarrow> addr list \<times> heap" where
  "linkEvents events h =
     (events,
      fold (\<lambda>i h. h[events ! i := (h ! (events ! i))\<lparr>PreviousEvent := Some (events ! (i - 1))\<rparr>])
        [1..<length events] h)"

definition combineEventLists :: "addr list list \<Rightarrow> addr list" where
  "combineEventLists event_lists = fold (\<lambda>list events. events @ list) event_lists []"

text \<open>\<^verbatim>\<open>compareEvents\<close>: the result is the list of the failures it reports with \<^verbatim>\<open>t.Errorf\<close>.\<close>

definition compareEvents :: "repository_Event \<Rightarrow> repository_Event \<Rightarrow> string list" where
  "compareEvents want got =
     (if AggregateID want \<noteq> AggregateID got then [''wrong aggregateID''] else []) @
     (if AggregateType want \<noteq> AggregateType got then [''wrong aggregateType''] else []) @
     (if CheckPreviousSequence want \<noteq> CheckPreviousSequence got then [''wrong check previous''] else []) @
     (if Data want \<noteq> Data got then [''wrong data''] else []) @
     (if EditorService want \<noteq> EditorService got then [''wrong editor service''] else []) @
     (if EditorUser want \<noteq> EditorUser got then [''wrong editor user''] else []) @
     (if ResourceOwner want \<noteq> ResourceOwner got then [''wrong resource owner''] else []) @
     (if Type want \<noteq> Type got then [''wrong event type''] else []) @
     (if Version want \<noteq> Version got then [''wrong version''] else []) @
     (if (PreviousEvent want = None) \<noteq> (PreviousEvent got = None) then [''linking failed''] else []) @
     (if PreviousSequence want \<noteq> PreviousSequence got then [''wrong previous sequence''] else [])"

subsection \<open>The events of a batch\<close>

text \<open>
  Modelled from the spec: \<^verbatim>\<open>Eventstore.aggregatesToEvents\<close> is not part of the sources; its
  test is. From the specification are the events of the batch: those of the step above,
  aggregate after aggregate. Their links are not taken from the words of the specification
  but from the sources, which decide where the two part: section 4.1 has one chain
  through the batch, "independent of aggregate", and the test of the sources does not accept
  such a result (its \<^verbatim>\<open>compareEvents\<close> reports "linking failed" for the first event of the
  second aggregate). The links are therefore made the way the test makes the events it
  expects, with its own helpers: \<^verbatim>\<open>linkEvents\<close> over the events of one aggregate, and
  \<^verbatim>\<open>combineEventLists\<close> over the aggregates.
\<close>

fun aggregatesToEvents_loop ::
  "aggregater list \<Rightarrow> addr list list \<times> heap \<Rightarrow> error + addr list list \<times> heap" where
  "aggregatesToEvents_loop [] st = Inr st"
| "aggregatesToEvents_loop (aggregate # rest) (event_lists, h) =
     (case aggregateToEvents aggregate (aggregate_Events aggregate) ([], h) of
        Inl err \<Rightarrow> Inl err
      | Inr (events, h') \<Rightarrow>
         (case linkEvents events h' of
            (linked, h'') \<Rightarrow> aggregatesToEvents_loop rest (event_lists @ [linked], h'')))"

definition aggregatesToEvents :: "aggregater list \<Rightarrow> heap \<Rightarrow> error + addr list \<times> heap" where
  "aggregatesToEvents aggregates h =
     (case aggregatesToEvents_loop aggregates ([], h) of
        Inl err \<Rightarrow> Inl err
      | Inr (event_lists, h') \<Rightarrow> Inr (combineEventLists event_lists, h'))"

text \<open>
  The batch in the words of the amended claim C1, to be compared with the function above:
  the events of one aggregate form a chain of their own. The first event of an aggregate has no previous event, every
  later one points at the address of the event produced just before it; \<open>b\<close> is the address
  of the aggregate's first event.
\<close>

definition chain :: "aggregater \<Rightarrow> addr option \<Rightarrow> addr \<Rightarrow> Event list \<Rightarrow> repository_Event list" where
  "chain aggregate previousEvent b events =
     map (\<lambda>(event, previous).
            newEvent aggregate event
              (case eventData (event_Data event) of Inl err \<Rightarrow> None | Inr data \<Rightarrow> data) previous)
       (zip events (previousEvent # map Some [b..<b + length events]))"

fun batch :: "aggregater list \<Rightarrow> addr \<Rightarrow> repository_Event list" where
  "batch [] b = []"
| "batch (aggregate # aggregates) b =
     chain aggregate None b (aggregate_Events aggregate) @
     batch aggregates (b + length (aggregate_Events aggregate))"



subsection \<open>The test fixtures of package eventstore (src/unnamed/part\_002)\<close>

text \<open>
  \<^verbatim>\<open>testAggregate\<close> and \<^verbatim>\<open>testEvent\<close> with their methods: the struct fields are the arguments, the
  constants are what the methods return. \<^verbatim>\<open>testFilterMapper\<close> returns
  \<^verbatim>\<open>&testEvent{description: "hodor"}\<close>; a mapped event is its description here.
\<close>

definition testAggregate :: "string \<Rightarrow> Event list \<Rightarrow> 64 word \<Rightarrow> aggregater" where
  "testAggregate ident events previousSequence =
     \<lparr>aggregate_ID = ident, aggregate_Type = ''test.aggregate'', aggregate_Events = events,
      aggregate_ResourceOwner = ''ro'', aggregate_Version = ''v1'',
      aggregate_PreviousSequence = previousSequence\<rparr>"

definition testEvent :: "bool \<Rightarrow> payload \<Rightarrow> Event" where
  "testEvent shouldCheckPrevious data =
     \<lparr>event_CheckPrevious = shouldCheckPrevious, event_EditorService = ''editorService'',
      event_EditorUser = ''editorUser'', event_Type = ''test.event'', event_Data = data,
      event_PreviousSequence = 0\<rparr>"

definition testFilterMapper :: "repository_Event option \<Rightarrow> error + string" where
  "testFilterMapper event = Inr ''hodor''"

text \<open>
  The table of \<^verbatim>\<open>TestEventstore_aggregatesToEvents\<close>. Every expected event is the same literal
  but for the aggregate id and \<^verbatim>\<open>CheckPreviousSequence\<close>; the expected events of a case are
  allocated in a heap of their own, in the order they are written.
\<close>

definition expected_event :: "string \<Rightarrow> bool \<Rightarrow> repository_Event" where
  "expected_event ident check =
     \<lparr>AggregateID = ident, AggregateType = ''test.aggregate'', CheckPreviousSequence = check,
      Data = None, EditorService = ''editorService'', EditorUser = ''editorUser'',
      ResourceOwner = ''ro'', Type = ''test.event'', Version = ''v1'', PreviousEvent = None,
      PreviousSequence = 0, Sequence = 0\<rparr>"

definition one_aggregate_one_event :: "aggregater list" where
  "one_aggregate_one_event = [testAggregate ''1'' [testEvent False NoData] 0]"

definition one_aggregate_one_event_expected :: "addr list \<times> heap" where
  "one_aggregate_one_event_expected = ([0], [expected_event ''1'' False])"

definition one_aggregate_multiple_events :: "aggregater list" where
  "one_aggregate_multiple_events =
     [testAggregate ''1'' [testEvent False NoData, testEvent False NoData] 0]"

definition one_aggregate_multiple_events_expected :: "addr list \<times> heap" where
  "one_aggregate_multiple_events_expected =
     linkEvents [0, 1] [expected_event ''1'' False, expected_event ''1'' False]"

definition invalid_data :: "aggregater list" where
  \<open>invalid_data = [testAggregate ''1'' [testEvent False (Value (GoString ''{"data":""''))] 0]\<close>

definition multiple_aggregates :: "aggregater list" where
  "multiple_aggregates =
     [testAggregate ''1'' [testEvent False NoData, testEvent False NoData] 0,
      testAggregate ''2'' [testEvent True NoData] 0]"

definition multiple_aggregates_expected :: "addr list \<times> heap" where
  "multiple_aggregates_expected =
     (let h0 = [expected_event ''1'' False, expected_event ''1'' False, expected_event ''2'' True];
          (linked, h1) = linkEvents [0, 1] h0
      in (combineEventLists [linked, [2]], h1))"

text \<open>
  The body of the test for one row of the table, given what \<^verbatim>\<open>aggregatesToEvents\<close> returned: the
  failures it reports. \<open>accepted\<close> is a result that the row lets pass.
\<close>

definition test_report ::
  "bool \<Rightarrow> addr list \<times> heap \<Rightarrow> error + addr list \<times> heap \<Rightarrow> string list" where
  "test_report wantErr want result =
     (case result of
        Inl err \<Rightarrow> if wantErr then [] else [''unexpected error'']
      | Inr (events, h) \<Rightarrow>
          if wantErr then [''error wanted'']
          else if length (fst want) \<noteq> length events then [''length of events unequal'']
          else concat (map (\<lambda>i. compareEvents (snd want ! (fst want ! i)) (h ! (events ! i)))
                         [0..<length (fst want)]))"

definition accepted :: "bool \<Rightarrow> addr list \<times> heap \<Rightarrow> error + addr list \<times> heap \<Rightarrow> bool" where
  "accepted wantErr want result = (test_report wantErr want result = [])"

section \<open>The event store (package eventstore)\<close>

text \<open>
  The persistence port (section 4.1): the interface that \<^verbatim>\<open>testRepo\<close> implements, as a record of
  functions over the state \<open>'s\<close> of the store. \<^verbatim>\<open>Push\<close> may change the store, \<^verbatim>\<open>Filter\<close> and
  \<^verbatim>\<open>LatestSequence\<close> read it. A query reaches the port as the fields of its factory.
\<close>

record 's Repository =
  repo_Health :: "'s \<Rightarrow> error option"
  repo_Push :: "repository_Event list \<Rightarrow> 's \<Rightarrow> error option \<times> 's"
  repo_Filter :: "SearchQueryFactory \<Rightarrow> 's \<Rightarrow> error + repository_Event list"
  repo_LatestSequence :: "SearchQueryFactory \<Rightarrow> 's \<Rightarrow> error + 64 word"

text \<open>
  \<^verbatim>\<open>Eventstore\<close> with the two fields the tests set: \<^verbatim>\<open>repo\<close> and the table
  \<^verbatim>\<open>eventMapper map[EventType]eventTypeInterceptors\<close>; an \<^verbatim>\<open>eventTypeInterceptors\<close> holds the
  decoder \<^verbatim>\<open>eventMapper func(*repository.Event) (Event, error)\<close>, which may be nil. The mutex
  guards the table against other threads and has no part in a sequential run. \<open>'ev\<close> is the
  type of the mapped events.
\<close>

record 'ev eventTypeInterceptors =
  eventMapper :: "(repository_Event option \<Rightarrow> error + 'ev) option"

record ('s, 'ev) Eventstore =
  repo :: "'s Repository"
  eventMapper :: "string \<rightharpoonup> 'ev eventTypeInterceptors"

text \<open>
  The state an operation of the event store runs in: the state of the store behind the port
  and the calls made to the port so far, oldest first.
\<close>

datatype port_call =
    Port_Push "repository_Event list"
  | Port_Filter SearchQueryFactory
  | Port_LatestSequence SearchQueryFactory

record 's port_world =
  port_state :: 's
  port_calls :: "port_call list"

text \<open>
  Modelled from the spec: \<^verbatim>\<open>Eventstore.RegisterFilterEventMapper\<close> is not part of the sources
  (only its test is). Section 4.2: "registering the same type twice replaces the decoder.
  Registration with an empty type name or a nil decoder is silently ignored." The decoder is
  stored in the entry of the type, which is created when the table has none.
\<close>

definition RegisterFilterEventMapper ::
  "string \<Rightarrow> (repository_Event option \<Rightarrow> error + 'ev) option \<Rightarrow> ('s, 'ev) Eventstore \<Rightarrow>
   ('s, 'ev) Eventstore" where
  "RegisterFilterEventMapper eventType mapper es =
     (if mapper = None \<or> eventType = [] then es
      else
        (let interceptor =
               (case eventMapper es eventType of
                  None \<Rightarrow> \<lparr>eventTypeInterceptors.eventMapper = None\<rparr>
                | Some existing \<Rightarrow> existing)
         in es\<lparr>eventMapper :=
                 (eventMapper es)(eventType \<mapsto> interceptor\<lparr>eventTypeInterceptors.eventMapper := mapper\<rparr>)\<rparr>))"

text \<open>
  Modelled from the spec: \<^verbatim>\<open>Eventstore.mapEvents\<close> is not part of the sources (only its test
  is). Section 4.2: for each stored event the mapper looks up the decoder of its event type,
  invokes it, and "returns UnknownEventType if no decoder is registered"; section 4.6: a
  decoder that fails gives \<open>DecodeError\<close>, and the call is aborted. The events are mapped in
  the order of the list.
\<close>

fun mapEvents :: "('s, 'ev) Eventstore \<Rightarrow> repository_Event list \<Rightarrow> error + 'ev list" where
  "mapEvents es [] = Inr []"
| "mapEvents es (event # events) =
     (case eventMapper es (Type event) of
        None \<Rightarrow> Inl (Throw UnknownEventType [] [])
      | Some interceptors \<Rightarrow>
         (case eventTypeInterceptors.eventMapper interceptors of
            None \<Rightarrow> Inl (Throw UnknownEventType [] [])
          | Some decoder \<Rightarrow>
             (case decoder (Some event) of
                Inl err \<Rightarrow> Inl (Throw DecodeError (code err) (message err))
              | Inr mapped \<Rightarrow>
                 (case mapEvents es events of
                    Inl err \<Rightarrow> Inl err
                  | Inr mappedEvents \<Rightarrow> Inr (mapped # mappedEvents)))))"

text \<open>An event type has no decoder when the table has no entry for it, or an entry with a nil decoder.\<close>

definition no_decoder :: "('s, 'ev) Eventstore \<Rightarrow> string \<Rightarrow> bool" where
  "no_decoder es eventType =
     (case eventMapper es eventType of
        None \<Rightarrow> True
      | Some interceptors \<Rightarrow> eventTypeInterceptors.eventMapper interceptors = None)"

definition decodes :: "('s, 'ev) Eventstore \<Rightarrow> repository_Event \<Rightarrow> bool" where
  "decodes es event =
     (case eventMapper es (Type event) of
        None \<Rightarrow> False
      | Some interceptors \<Rightarrow>
         (case eventTypeInterceptors.eventMapper interceptors of
            None \<Rightarrow> False
          | Some decoder \<Rightarrow> (case decoder (Some event) of Inl err \<Rightarrow> False | Inr mapped \<Rightarrow> True)))"

text \<open>
  Modelled from the spec: \<^verbatim>\<open>SearchQueryFactory.build\<close> is not part of the sources. Section 4.3:
  "At least one aggregate type must be set; otherwise filter and latest\_sequence return
  InvalidQuery"; the tests pass a nil factory as the invalid one. \<open>None\<close> is the nil factory.
\<close>

definition invalid_query :: "SearchQueryFactory option \<Rightarrow> bool" where
  "invalid_query factory = (case factory of None \<Rightarrow> True | Some f \<Rightarrow> aggregateTypes f = [])"

definition build :: "SearchQueryFactory option \<Rightarrow> error + SearchQueryFactory" where
  "build factory =
     (case factory of
        None \<Rightarrow> Inl (Throw InvalidQuery [] [])
      | Some f \<Rightarrow> if aggregateTypes f = [] then Inl (Throw InvalidQuery [] []) else Inr f)"

text \<open>
  Modelled from the spec: \<^verbatim>\<open>FilterEvents\<close>, \<^verbatim>\<open>FilterToReducer\<close>, \<^verbatim>\<open>FilterToQueryReducer\<close>,
  \<^verbatim>\<open>LatestSequence\<close> and \<^verbatim>\<open>PushAggregates\<close> of \<^verbatim>\<open>Eventstore\<close> are not part of the sources (only
  their tests are). Sections 4.4 to 4.6: a filter builds the query, returns \<open>InvalidQuery\<close>
  without touching the store when it is invalid, asks the port, and maps what the port
  returns; \<^verbatim>\<open>filter_to_reducer\<close> "filters, maps, appends to the reducer, and calls reduce()";
  \<^verbatim>\<open>filter_to_query_reducer\<close> takes the query from the model; a push hands the events of the
  aggregates to the port in one batch and returns them mapped. An error of the port is
  returned as it is. A reducer is the interface \<^verbatim>\<open>testReducer\<close> implements; Go changes the
  reducer in place, the model returns it.
\<close>

definition FilterEvents ::
  "('s, 'ev) Eventstore \<Rightarrow> SearchQueryFactory option \<Rightarrow> 's port_world \<Rightarrow>
   (error + 'ev list) \<times> 's port_world" where
  "FilterEvents es queryFactory w =
     (case build queryFactory of
        Inl err \<Rightarrow> (Inl err, w)
      | Inr query \<Rightarrow>
         (let w' = w\<lparr>port_calls := port_calls w @ [Port_Filter query]\<rparr> in
          case repo_Filter (repo es) query (port_state w) of
            Inl err \<Rightarrow> (Inl err, w')
          | Inr events \<Rightarrow> (mapEvents es events, w')))"

record ('r, 'ev) reducer =
  AppendEvents :: "'ev list \<Rightarrow> 'r \<Rightarrow> error + 'r"
  Reduce :: "'r \<Rightarrow> error + 'r"

definition FilterToReducer ::
  "('s, 'ev) Eventstore \<Rightarrow> SearchQueryFactory option \<Rightarrow> ('r, 'ev) reducer \<Rightarrow> 'r \<Rightarrow> 's port_world \<Rightarrow>
   (error + 'r) \<times> 's port_world" where
  "FilterToReducer es searchQuery ops r w =
     (case FilterEvents es searchQuery w of
        (Inl err, w') \<Rightarrow> (Inl err, w')
      | (Inr events, w') \<Rightarrow>
         (case AppendEvents ops events r of
            Inl err \<Rightarrow> (Inl err, w')
          | Inr r' \<Rightarrow> (Reduce ops r', w')))"

definition FilterToQueryReducer ::
  "('s, 'ev) Eventstore \<Rightarrow> ('r \<Rightarrow> SearchQueryFactory option) \<Rightarrow> ('r, 'ev) reducer \<Rightarrow> 'r \<Rightarrow>
   's port_world \<Rightarrow> (error + 'r) \<times> 's port_world" where
  "FilterToQueryReducer es Query ops r w = FilterToReducer es (Query r) ops r w"

definition LatestSequence ::
  "('s, 'ev) Eventstore \<Rightarrow> SearchQueryFactory option \<Rightarrow> 's port_world \<Rightarrow>
   (error + 64 word) \<times> 's port_world" where
  "LatestSequence es queryFactory w =
     (case build queryFactory of
        Inl err \<Rightarrow> (Inl err, w)
      | Inr query \<Rightarrow>
         (repo_LatestSequence (repo es) query (port_state w),
          w\<lparr>port_calls := port_calls w @ [Port_LatestSequence query]\<rparr>))"

definition PushAggregates ::
  "('s, 'ev) Eventstore \<Rightarrow> aggregater list \<Rightarrow> 's port_world \<Rightarrow> (error + 'ev list) \<times> 's port_world" where
  "PushAggregates es aggregates w =
     (case aggregatesToEvents aggregates [] of
        Inl err \<Rightarrow> (Inl err, w)
      | Inr (events, h) \<Rightarrow>
         (let pushed = map (\<lambda>a. h ! a) events in
          case repo_Push (repo es) pushed (port_state w) of
            (Some err, s') \<Rightarrow>
              (Inl err, \<lparr>port_state = s', port_calls = port_calls w @ [Port_Push pushed]\<rparr>)
          | (None, s') \<Rightarrow>
              (mapEvents es pushed, \<lparr>port_state = s', port_calls = port_calls w @ [Port_Push pushed]\<rparr>)))"

subsection \<open>testRepo and testReducer of the tests (src/unnamed/part\_002)\<close>

text \<open>
  \<^verbatim>\<open>testRepo\<close> with its methods. \<^verbatim>\<open>Push\<close> reports what differs from the events it expects to the
  test and returns an error only for a batch of another length (\<^verbatim>\<open>fmt.Errorf("")\<close>).
\<close>

record testRepo =
  testRepo_events :: "repository_Event list"
  testRepo_sequence :: "64 word"
  testRepo_err :: "error option"

definition testRepo_Push :: "repository_Event list \<Rightarrow> testRepo \<Rightarrow> error option \<times> testRepo" where
  "testRepo_Push events r =
     (case testRepo_err r of
        Some err \<Rightarrow> (Some err, r)
      | None \<Rightarrow>
         if length (testRepo_events r) \<noteq> length events then (Some (Throw GoError [] []), r)
         else (None, r))"

definition testRepo_port :: "testRepo Repository" where
  "testRepo_port =
     \<lparr>repo_Health = (\<lambda>r. None),
      repo_Push = testRepo_Push,
      repo_Filter =
        (\<lambda>searchQuery r. case testRepo_err r of Some err \<Rightarrow> Inl err | None \<Rightarrow> Inr (testRepo_events r)),
      repo_LatestSequence =
        (\<lambda>queryFactory r. case testRepo_err r of Some err \<Rightarrow> Inl err | None \<Rightarrow> Inr (testRepo_sequence r))\<rparr>"

text \<open>
  The event stores the tests build: \<^verbatim>\<open>&Eventstore{repo: ..., eventMapper: map[...]{}}\<close> and then
  one \<^verbatim>\<open>RegisterFilterEventMapper\<close> per entry of the test's mapper table. \<open>unregistered_event\<close>
  is the event of the row "no mapper" of \<^verbatim>\<open>TestEventstore_mapEvents\<close>, every field but its type
  at the zero value.
\<close>

definition empty_eventstore :: "(testRepo, string) Eventstore" where
  "empty_eventstore = \<lparr>repo = testRepo_port, eventMapper = Map.empty\<rparr>"

definition empty_testRepo :: "testRepo port_world" where
  "empty_testRepo =
     \<lparr>port_state = \<lparr>testRepo_events = [], testRepo_sequence = 0, testRepo_err = None\<rparr>,
      port_calls = []\<rparr>"

definition unregistered_event :: repository_Event where
  "unregistered_event =
     \<lparr>AggregateID = [], AggregateType = [], CheckPreviousSequence = False, Data = None,
      EditorService = [], EditorUser = [], ResourceOwner = [], Type = ''no.mapper.found'',
      Version = [], PreviousEvent = None, PreviousSequence = 0, Sequence = 0\<rparr>"

definition unimplemented_mapper :: "repository_Event option \<Rightarrow> error + string" where
  \<comment> \<open>the decoder of the row "existing interceptor existing filter mapper"\<close>
  "unimplemented_mapper event = Inl (Throw Unimplemented ''V2-1qPvn'' ''unimplemented'')"

text \<open>\<^verbatim>\<open>len(es.eventMapper)\<close>, the count the registration test checks.\<close>

definition mapperCount :: "('s, 'ev) Eventstore \<Rightarrow> nat" where
  "mapperCount es = card (dom (eventMapper es))"

text \<open>
  The claim C8 as it is stated, for one registration: the table has one entry more than
  before.
\<close>

definition adds_one_entry :: "('s, 'ev) Eventstore \<Rightarrow> ('s, 'ev) Eventstore \<Rightarrow> bool" where
  "adds_one_entry es es' = (mapperCount es' = mapperCount es + 1)"

text \<open>
  \<^verbatim>\<open>testReducer\<close> with its two methods; \<^verbatim>\<open>Reduce\<close> reports a wrong number of appended events to
  the test and returns the error the reducer was built with.
\<close>

record testReducer =
  testReducer_events :: "string list"
  testReducer_expectedLength :: nat
  testReducer_err :: "error option"

definition testReducer_ops :: "(testReducer, string) reducer" where
  "testReducer_ops =
     \<lparr>AppendEvents =
        (\<lambda>e r. case testReducer_err r of
                  Some err \<Rightarrow> Inl err
                | None \<Rightarrow> Inr (r\<lparr>testReducer_events := testReducer_events r @ e\<rparr>)),
      Reduce = (\<lambda>r. case testReducer_err r of Some err \<Rightarrow> Inl err | None \<Rightarrow> Inr r)\<rparr>"

section \<open>IAM members (internal/v2/business/iam: member.go, repository.go)\<close>

text \<open>
  \<^verbatim>\<open>iam_model.IAMMember\<close> is declared outside the sources; \<^verbatim>\<open>member.go\<close> reads its fields
  \<^verbatim>\<open>AggregateID\<close>, \<^verbatim>\<open>UserID\<close> and \<^verbatim>\<open>Roles\<close>. The commands take a pointer to it: \<open>None\<close> is nil.
\<close>

record IAMMember =
  AggregateID :: string
  UserID :: string
  Roles :: "string list"

text \<open>
  Modelled from the spec: the read model of package \<^verbatim>\<open>iam_repo\<close> is not part of the sources.
  It holds "the current list of members" (section 3); a member of the read model has the user
  id and the roles of scenario S1. Both records are extensible: whatever else the Go structs
  hold travels in the extension.
\<close>

record MemberReadModel =
  member_UserID :: string
  member_Roles :: "string list"

record 'm ReadModel =
  Members :: "'m MemberReadModel_scheme list"

text \<open>
  Modelled from the spec: \<^verbatim>\<open>MembersReadModel.MemberByUserID\<close> is not part of the sources.
  \<^verbatim>\<open>member.go\<close> takes its first result as an index that is \<^verbatim>\<open>-1\<close> when no member has the
  user id, and its second as a pointer to the member found (nil when there is none). The
  search is from the front of the list.
\<close>

fun MemberByUserID_from ::
  "int \<Rightarrow> 'm MemberReadModel_scheme list \<Rightarrow> string \<Rightarrow> int \<times> 'm MemberReadModel_scheme option" where
  "MemberByUserID_from idx [] user_id = (- 1, None)"
| "MemberByUserID_from idx (member # members) user_id =
     (if member_UserID member = user_id then (idx, Some member)
      else MemberByUserID_from (idx + 1) members user_id)"

definition MemberByUserID ::
  "'m MemberReadModel_scheme list \<Rightarrow> string \<Rightarrow> int \<times> 'm MemberReadModel_scheme option" where
  "MemberByUserID members user_id = MemberByUserID_from 0 members user_id"

text \<open>
  The methods of \<^verbatim>\<open>*eventstore.Eventstore\<close> that the repository calls. Their bodies are not
  part of the sources, so they are parameters: a record of functions over the state \<open>'s\<close> of
  the event log. The two filters read the log and fold it into the reducer they are given
  (Go mutates the reducer in place; the model returns it); \<^verbatim>\<open>PushAggregates\<close> may change the
  log and returns the pushed events.
\<close>

record ('s, 'rm, 'mrm, 'agg, 'ev) Eventstore_methods =
  es_FilterToQueryReducer :: "'s \<Rightarrow> 'rm \<Rightarrow> error + 'rm"
  es_FilterToReducer :: "'s \<Rightarrow> SearchQueryFactory option \<Rightarrow> 'mrm \<Rightarrow> error + 'mrm"
  es_PushAggregates :: "'s \<Rightarrow> 'agg list \<Rightarrow> (error + 'ev list) \<times> 's"

text \<open>
  The functions of \<^verbatim>\<open>iam_model\<close> and \<^verbatim>\<open>iam_repo\<close> that \<^verbatim>\<open>member.go\<close> calls and the sources do
  not hold, as parameters too. \<^verbatim>\<open>IsValid\<close> is a method on the pointer, so it is given the
  pointer, and what it answers for the nil pointer is part of the parameter;
  \<^verbatim>\<open>readModelToMember\<close> is given the pointer that \<^verbatim>\<open>MemberByUserID\<close> returned.
\<close>

record ('rm, 'mrm, 'agg, 'ev, 'pev, 'm, 'out) iam_repo =
  IsValid :: "IAMMember option \<Rightarrow> bool"
  NewReadModel :: "string \<Rightarrow> 'rm"
  NewMemberReadModel :: "'mrm"
  AppendAndReduce :: "'ev list \<Rightarrow> 'rm \<Rightarrow> error + 'rm"
  AggregateFromReadModel :: "'rm \<Rightarrow> 'agg"
  PushMemberAdded :: "string \<Rightarrow> string list \<Rightarrow> 'agg \<Rightarrow> 'agg"
  PushEvents :: "'pev list \<Rightarrow> 'agg \<Rightarrow> 'agg"
  NewMemberRemovedEvent :: "string \<Rightarrow> 'pev"
  readModelToMember :: "'m MemberReadModel_scheme option \<Rightarrow> 'out"
  iam_AggregateType :: string

text \<open>
  The state a command runs in: the event log behind the event store, and the calls the
  repository has made to the event store so far, oldest first.
\<close>

datatype es_call =
    Call_FilterToQueryReducer
  | Call_FilterToReducer "SearchQueryFactory option"
  | Call_PushAggregates

record 's world =
  store :: 's
  calls :: "es_call list"

definition called :: "es_call \<Rightarrow> 's world \<Rightarrow> 's world" where
  "called c w = w\<lparr>calls := calls w @ [c]\<rparr>"

text \<open>\<^verbatim>\<open>func (r *Repository) iamByID(ctx, id) (*iam_repo.ReadModel, error)\<close> of repository.go.\<close>

definition iamByID ::
  "('s, 'rm, 'mrm, 'agg, 'ev) Eventstore_methods \<Rightarrow>
   ('rm, 'mrm, 'agg, 'ev, 'pev, 'm, 'out) iam_repo \<Rightarrow>
   string \<Rightarrow> 's world \<Rightarrow> (error + 'rm) \<times> 's world" where
  "iamByID es deps iam_id w =
     (let readModel = NewReadModel deps iam_id in
      case es_FilterToQueryReducer es (store w) readModel of
        Inl err \<Rightarrow> (Inl err, called Call_FilterToQueryReducer w)
      | Inr readModel' \<Rightarrow> (Inr readModel', called Call_FilterToQueryReducer w))"

text \<open>
  \<^verbatim>\<open>func (r *Repository) AddIAMMember(ctx, member *iam_model.IAMMember) (*iam_model.IAMMember, error)\<close>,
  branch by branch. \<^verbatim>\<open>member.AggregateID\<close> on a nil \<^verbatim>\<open>member\<close> is the run-time panic. The test of
  line 42 is on \<^verbatim>\<open>member\<close>, as the source has it.
\<close>

definition AddIAMMember ::
  "('s, ('m, 'x) ReadModel_scheme, 'mrm, 'agg, 'ev) Eventstore_methods \<Rightarrow>
   (('m, 'x) ReadModel_scheme, 'mrm, 'agg, 'ev, 'pev, 'm, 'out) iam_repo \<Rightarrow>
   IAMMember option \<Rightarrow> 's world \<Rightarrow> (error + 'out) \<times> 's world" where
  "AddIAMMember es deps member w =
     (if \<not> IsValid deps member
      then (Inl (Throw PreconditionFailed ''IAM-W8m4l'' ''Errors.IAM.MemberInvalid''), w)
      else case member of
        None \<Rightarrow> (Inl (Throw NilPointerDereference [] ''member.AggregateID''), w)
      | Some m \<Rightarrow>
         (case iamByID es deps (AggregateID m) w of
            (Inl err, w1) \<Rightarrow> (Inl err, w1)
          | (Inr iam, w1) \<Rightarrow>
             (let (idx, _) = MemberByUserID (Members iam) (UserID m) in
              if idx > - 1
              then (Inl (Throw PreconditionFailed ''IAM-GPhuz'' ''Errors.IAM.MemberAlreadyExisting''), w1)
              else
               (let iamAgg = PushMemberAdded deps (UserID m) (Roles m) (AggregateFromReadModel deps iam) in
                case es_PushAggregates es (store w1) [iamAgg] of
                  (Inl err, s2) \<Rightarrow> (Inl err, called Call_PushAggregates (w1\<lparr>store := s2\<rparr>))
                | (Inr events, s2) \<Rightarrow>
                   (let w2 = called Call_PushAggregates (w1\<lparr>store := s2\<rparr>) in
                    case AppendAndReduce deps events iam of
                      Inl err \<Rightarrow> (Inl err, w2)
                    | Inr iam' \<Rightarrow>
                       (let (_, addedMember) = MemberByUserID (Members iam') (UserID m) in
                        if member = None
                        then (Inl (Throw Internal ''IAM-nuoDN'' ''member not saved''), w2)
                        else (Inr (readModelToMember deps addedMember), w2)))))))"

text \<open>\<^verbatim>\<open>func (r *Repository) RemoveIAMMember(ctx, member *iam_model.IAMMember) error\<close>; \<open>None\<close> is the nil error.\<close>

definition RemoveIAMMember ::
  "('s, ('m, 'x) ReadModel_scheme, 'mrm, 'agg, 'ev) Eventstore_methods \<Rightarrow>
   (('m, 'x) ReadModel_scheme, 'mrm, 'agg, 'ev, 'pev, 'm, 'out) iam_repo \<Rightarrow>
   IAMMember option \<Rightarrow> 's world \<Rightarrow> error option \<times> 's world" where
  "RemoveIAMMember es deps member w =
     (case member of
        None \<Rightarrow> (Some (Throw NilPointerDereference [] ''member.AggregateID''), w)
      | Some m \<Rightarrow>
         (case iamByID es deps (AggregateID m) w of
            (Inl err, w1) \<Rightarrow> (Some err, w1)
          | (Inr iam, w1) \<Rightarrow>
             (let (i, _) = MemberByUserID (Members iam) (UserID m) in
              if i = - 1 then (None, w1)
              else
               (let iamAgg = PushEvents deps [NewMemberRemovedEvent deps (UserID m)]
                               (AggregateFromReadModel deps iam) in
                case es_PushAggregates es (store w1) [iamAgg] of
                  (Inl err, s2) \<Rightarrow> (Some err, called Call_PushAggregates (w1\<lparr>store := s2\<rparr>))
                | (Inr events, s2) \<Rightarrow>
                   (case AppendAndReduce deps events iam of
                      Inl err \<Rightarrow> (Some err, called Call_PushAggregates (w1\<lparr>store := s2\<rparr>))
                    | Inr iam' \<Rightarrow> (None, called Call_PushAggregates (w1\<lparr>store := s2\<rparr>)))))))"

text \<open>
  \<^verbatim>\<open>func (r *Repository) MemberByID(ctx, iamID, userID string) (*iam_repo.MemberReadModel, error)\<close>.
  \<^verbatim>\<open>iam_repo.AggregateType\<close> is a constant of a package outside the sources: the field
  \<open>iam_AggregateType\<close> of the parameter record.
\<close>

definition MemberByID_query :: "string \<Rightarrow> string \<Rightarrow> string \<Rightarrow> SearchQueryFactory" where
  "MemberByID_query aggregate_type iam_id user_id =
     EventData [(''userId'', user_id)]
       (AggregateIDs [iam_id] (NewSearchQueryFactory ColumnsEvent [aggregate_type]))"

definition MemberByID ::
  "('s, 'rm, 'mrm, 'agg, 'ev) Eventstore_methods \<Rightarrow>
   ('rm, 'mrm, 'agg, 'ev, 'pev, 'm, 'out) iam_repo \<Rightarrow>
   string \<Rightarrow> string \<Rightarrow> 's world \<Rightarrow> (error + 'mrm) \<times> 's world" where
  "MemberByID es deps iam_id user_id w =
     (let query = Some (MemberByID_query (iam_AggregateType deps) iam_id user_id);
          member = NewMemberReadModel deps in
      case es_FilterToReducer es (store w) query member of
        Inl err \<Rightarrow> (Inl err, called (Call_FilterToReducer query) w)
      | Inr member' \<Rightarrow> (Inr member', called (Call_FilterToReducer query) w))"

subsection \<open>An in-memory instance for the scenarios\<close>

text \<open>
  Modelled from the spec: an instance of the parameters above for the scenarios S1, S2 and S5
  of section 8, used to run the commands on concrete logs. The log is the list of member
  events; a read model over one aggregate folds the events of that aggregate, in log order;
  a push appends the events of the aggregates to the log and returns them.
\<close>

datatype member_event =
    MemberAdded (event_aggregate: string) (event_user: string) "string list"
  | MemberRemoved (event_aggregate: string) (event_user: string)

type_synonym scenario_read_model = "(unit, string) ReadModel_scheme"

fun reduce_member_event :: "scenario_read_model \<Rightarrow> member_event \<Rightarrow> scenario_read_model" where
  "reduce_member_event rm (MemberAdded a u roles) =
     rm\<lparr>Members := Members rm @ [\<lparr>member_UserID = u, member_Roles = roles\<rparr>]\<rparr>"
| "reduce_member_event rm (MemberRemoved a u) =
     rm\<lparr>Members := filter (\<lambda>x. member_UserID x \<noteq> u) (Members rm)\<rparr>"

definition scenario_matches :: "SearchQueryFactory \<Rightarrow> member_event \<Rightarrow> bool" where
  \<comment> \<open>every event of this log belongs to an aggregate of type \<open>iam\<close> and carries one user id\<close>
  "scenario_matches q e =
     (''iam'' \<in> set (aggregateTypes q) \<and>
      (aggregateIDs q = [] \<or> event_aggregate e \<in> set (aggregateIDs q)) \<and>
      list_all (\<lambda>(k, v). k = ''userId'' \<and> event_user e = v) (dataPredicates q))"

definition scenario_eventstore ::
  "(member_event list, scenario_read_model, member_event list, string \<times> member_event list, member_event)
     Eventstore_methods" where
  "scenario_eventstore =
     \<lparr>es_FilterToQueryReducer =
        (\<lambda>log rm. Inr (foldl reduce_member_event rm
                          (filter (\<lambda>e. event_aggregate e = ReadModel.more rm) log))),
      es_FilterToReducer =
        (\<lambda>log query member.
           case query of
             None \<Rightarrow> Inl (Throw InvalidQuery [] [])
           | Some q \<Rightarrow> Inr (member @ filter (scenario_matches q) log)),
      es_PushAggregates =
        (\<lambda>log aggregates. (Inr (concat (map snd aggregates)), log @ concat (map snd aggregates)))\<rparr>"

definition scenario_iam_repo ::
  "(scenario_read_model, member_event list, string \<times> member_event list, member_event,
    string \<Rightarrow> member_event, unit, (string \<times> string list) option) iam_repo" where
  "scenario_iam_repo =
     \<lparr>IsValid =
        (\<lambda>member. case member of
           None \<Rightarrow> False
         | Some m \<Rightarrow> AggregateID m \<noteq> [] \<and> UserID m \<noteq> [] \<and> Roles m \<noteq> []),
      NewReadModel = (\<lambda>iam_id. \<lparr>Members = [], \<dots> = iam_id\<rparr>),
      NewMemberReadModel = [],
      AppendAndReduce = (\<lambda>events rm. Inr (foldl reduce_member_event rm events)),
      AggregateFromReadModel = (\<lambda>rm. (ReadModel.more rm, [])),
      PushMemberAdded = (\<lambda>user_id roles (a, events). (a, events @ [MemberAdded a user_id roles])),
      PushEvents = (\<lambda>new (a, events). (a, events @ map (\<lambda>event. event a) new)),
      NewMemberRemovedEvent = (\<lambda>user_id a. MemberRemoved a user_id),
      readModelToMember = map_option (\<lambda>x. (member_UserID x, member_Roles x)),
      iam_AggregateType = ''iam''\<rparr>"

text \<open>The log of scenario S1 after its push, and an event store that returns no pushed events.\<close>

definition log_S1 :: "member_event list" where
  "log_S1 = [MemberAdded ''iam-1'' ''u1'' [''A'']]"

definition silent_eventstore ::
  "(member_event list, scenario_read_model, member_event list, string \<times> member_event list, member_event)
     Eventstore_methods" where
  "silent_eventstore =
     scenario_eventstore
       \<lparr>es_PushAggregates := (\<lambda>log aggregates. (Inr [], log @ concat (map snd aggregates)))\<rparr>"

section \<open>Theorems\<close>

subsection \<open>The IDP OIDC configuration write model\<close>

lemma AppendEvents_keeps_ids:
  "idpConfigID (IDPOIDCConfigWriteModel_AppendEvents inner wm events) = idpConfigID wm \<and>
   iamID (IDPOIDCConfigWriteModel_AppendEvents inner wm events) = iamID wm"
  by (induction events arbitrary: wm) (simp_all split: EventReader.splits)

text \<open>
  Claim C10. For every event list passed to \<^verbatim>\<open>IDPOIDCConfigWriteModel.AppendEvents\<close> the inner
  \<^verbatim>\<open>ConfigWriteModel\<close> receives, one call per event and in the order of the list, exactly the
  forwarded events: an \<^verbatim>\<open>IDPOIDCConfigAddedEvent\<close> or \<^verbatim>\<open>IDPOIDCConfigChangedEvent\<close> if and only
  if its \<^verbatim>\<open>IDPConfigID\<close> equals the model's \<^verbatim>\<open>idpConfigID\<close> (as its embedded oidc event), and
  every event of another type unconditionally. The model's own two ids never change.
\<close>

theorem C10_AppendEvents_forwards_matching_events:
  "IDPOIDCConfigWriteModel_AppendEvents inner wm events =
     wm\<lparr>ConfigWriteModel :=
          fold (\<lambda>event. inner [event]) (forwarded_events (idpConfigID wm) events) (ConfigWriteModel wm)\<rparr>"
proof (induction events arbitrary: wm)
  case Nil
  show ?case by (simp add: forwarded_events_def)
next
  case (Cons event events)
  show ?case
    by (cases event)
       (simp_all add: Cons.IH forwarded_events_def is_forwarded_def embedded_event_def)
qed

text \<open>
  A write model for \<open>idp-1\<close> whose inner model records what it is given: of five events it
  receives the two wrappers of \<open>idp-1\<close>, unwrapped, and the event of another type.
\<close>

theorem C10_recording_witness:
  "ConfigWriteModel
     (IDPOIDCConfigWriteModel_AppendEvents (\<lambda>events received. received @ events)
        (NewIDPOIDCConfigWriteModel [] ''iam-1'' ''idp-1'')
        [IDPOIDCConfigAddedEvent \<lparr>IDPConfigID = ''idp-1''\<rparr>,
         IDPOIDCConfigAddedEvent \<lparr>IDPConfigID = ''idp-2''\<rparr>,
         OtherEvent ''iam.member.added'',
         IDPOIDCConfigChangedEvent \<lparr>changed_IDPConfigID = ''idp-9''\<rparr>,
         IDPOIDCConfigChangedEvent \<lparr>changed_IDPConfigID = ''idp-1''\<rparr>]) =
   [Oidc_ConfigAddedEvent \<lparr>IDPConfigID = ''idp-1''\<rparr>,
    OtherEvent ''iam.member.added'',
    Oidc_ConfigChangedEvent \<lparr>changed_IDPConfigID = ''idp-1''\<rparr>]"
  using C10_AppendEvents_forwards_matching_events
          [of "\<lambda>events received. received @ events" "NewIDPOIDCConfigWriteModel [] ''iam-1'' ''idp-1''"
              "[IDPOIDCConfigAddedEvent \<lparr>IDPConfigID = ''idp-1''\<rparr>,
                IDPOIDCConfigAddedEvent \<lparr>IDPConfigID = ''idp-2''\<rparr>,
                OtherEvent ''iam.member.added'',
                IDPOIDCConfigChangedEvent \<lparr>changed_IDPConfigID = ''idp-9''\<rparr>,
                IDPOIDCConfigChangedEvent \<lparr>changed_IDPConfigID = ''idp-1''\<rparr>]"]
  by (simp add: NewIDPOIDCConfigWriteModel_def forwarded_events_def is_forwarded_def embedded_event_def)

subsection \<open>Looking a member up\<close>

lemma MemberByUserID_from_absent:
  "\<forall>x\<in>set members. member_UserID x \<noteq> user_id \<Longrightarrow>
   MemberByUserID_from idx members user_id = (- 1, None)"
  by (induction members arbitrary: idx) simp_all

lemma MemberByUserID_from_present:
  "\<exists>x\<in>set members. member_UserID x = user_id \<Longrightarrow> 0 \<le> idx \<Longrightarrow>
   \<exists>i x. MemberByUserID_from idx members user_id = (i, Some x) \<and> idx \<le> i \<and>
         x \<in> set members \<and> member_UserID x = user_id"
proof (induction members arbitrary: idx)
  case Nil
  then show ?case by simp
next
  case (Cons member members)
  show ?case
  proof (cases "member_UserID member = user_id")
    case True
    then show ?thesis by simp
  next
    case False
    with Cons.prems have "\<exists>x\<in>set members. member_UserID x = user_id" by simp
    moreover from Cons.prems have "0 \<le> idx + 1" by simp
    ultimately obtain i x where
      "MemberByUserID_from (idx + 1) members user_id = (i, Some x)" "idx + 1 \<le> i"
      "x \<in> set members" "member_UserID x = user_id"
      using Cons.IH by blast
    with False show ?thesis by simp
  qed
qed

lemma MemberByUserID_absent:
  "\<forall>x\<in>set members. member_UserID x \<noteq> user_id \<Longrightarrow> MemberByUserID members user_id = (- 1, None)"
  by (simp add: MemberByUserID_def MemberByUserID_from_absent)

lemma MemberByUserID_present:
  "\<exists>x\<in>set members. member_UserID x = user_id \<Longrightarrow>
   \<exists>i x. MemberByUserID members user_id = (i, Some x) \<and> 0 \<le> i \<and> x \<in> set members \<and>
         member_UserID x = user_id"
  unfolding MemberByUserID_def using MemberByUserID_from_present [of members user_id 0] by simp

subsection \<open>The member commands\<close>

text \<open>
  Claim C2. Whenever \<^verbatim>\<open>AddIAMMember\<close> is called with a valid member and the read model it loads
  already holds a member with that \<^verbatim>\<open>UserID\<close>, it returns the PreconditionFailed error with
  code \<^verbatim>\<open>IAM-GPhuz\<close>; the only call it has made to the event store is the load, so
  \<^verbatim>\<open>PushAggregates\<close> is not invoked and the log is the one it started from.
\<close>

theorem C2_AddIAMMember_rejects_existing_member:
  assumes valid: "IsValid deps (Some m)"
    and load: "es_FilterToQueryReducer es (store w) (NewReadModel deps (AggregateID m)) = Inr iam"
    and present: "\<exists>x\<in>set (Members iam). member_UserID x = UserID m"
  shows "AddIAMMember es deps (Some m) w =
           (Inl (Throw PreconditionFailed ''IAM-GPhuz'' ''Errors.IAM.MemberAlreadyExisting''),
            w\<lparr>calls := calls w @ [Call_FilterToQueryReducer]\<rparr>) \<and>
         store (snd (AddIAMMember es deps (Some m) w)) = store w \<and>
         calls (snd (AddIAMMember es deps (Some m) w)) = calls w @ [Call_FilterToQueryReducer]"
proof -
  from present obtain i x where "MemberByUserID (Members iam) (UserID m) = (i, Some x)" "0 \<le> i"
    using MemberByUserID_present by blast
  with valid load show ?thesis
    by (simp add: AddIAMMember_def iamByID_def called_def)
qed

text \<open>Scenario S2: the log holds \<open>u1\<close> as a member of \<open>iam-1\<close>, and \<open>u1\<close> is added again.\<close>

theorem C2_scenario_S2_witness:
  "AddIAMMember scenario_eventstore scenario_iam_repo
           (Some \<lparr>AggregateID = ''iam-1'', UserID = ''u1'', Roles = [''B'']\<rparr>)
           \<lparr>store = log_S1, calls = []\<rparr> =
     (Inl (Throw PreconditionFailed ''IAM-GPhuz'' ''Errors.IAM.MemberAlreadyExisting''),
      \<lparr>store = log_S1, calls = [Call_FilterToQueryReducer]\<rparr>)"
  using C2_AddIAMMember_rejects_existing_member
          [of scenario_iam_repo "\<lparr>AggregateID = ''iam-1'', UserID = ''u1'', Roles = [''B'']\<rparr>"
              scenario_eventstore "\<lparr>store = log_S1, calls = []\<rparr>"
              "\<lparr>Members = [\<lparr>member_UserID = ''u1'', member_Roles = [''A'']\<rparr>], \<dots> = ''iam-1''\<rparr>"]
  by (simp add: scenario_iam_repo_def scenario_eventstore_def log_S1_def)

lemma AddIAMMember_nil_member:
  "AddIAMMember es deps None w =
     (Inl (if IsValid deps None then Throw NilPointerDereference [] ''member.AggregateID''
           else Throw PreconditionFailed ''IAM-W8m4l'' ''Errors.IAM.MemberInvalid''), w)"
  by (simp add: AddIAMMember_def)

lemma AddIAMMember_member_not_saved_origin:
  "fst (AddIAMMember es deps member w) = Inl (Throw Internal ''IAM-nuoDN'' ''member not saved'') \<longrightarrow>
     (\<exists>m. member = Some m \<and>
        (es_FilterToQueryReducer es (store w) (NewReadModel deps (AggregateID m)) =
           Inl (Throw Internal ''IAM-nuoDN'' ''member not saved'') \<or>
         (\<exists>iam. es_FilterToQueryReducer es (store w) (NewReadModel deps (AggregateID m)) = Inr iam \<and>
            (fst (es_PushAggregates es (store w)
                   [PushMemberAdded deps (UserID m) (Roles m) (AggregateFromReadModel deps iam)]) =
               Inl (Throw Internal ''IAM-nuoDN'' ''member not saved'') \<or>
             (\<exists>events. fst (es_PushAggregates es (store w)
                   [PushMemberAdded deps (UserID m) (Roles m) (AggregateFromReadModel deps iam)]) =
                 Inr events \<and>
                AppendAndReduce deps events iam =
                  Inl (Throw Internal ''IAM-nuoDN'' ''member not saved''))))))"
  by (auto simp: AddIAMMember_def iamByID_def called_def Let_def
        split: option.splits sum.splits prod.splits if_splits)

text \<open>
  Claim C3. Every execution of \<^verbatim>\<open>AddIAMMember\<close> that reaches the lookup after the push (the
  member is valid, the load succeeds, the member is new, the push and the fold of the pushed
  events succeed) returns \<^verbatim>\<open>readModelToMember\<close> of the pointer the lookup gave, never the
  Internal error \<^verbatim>\<open>IAM-nuoDN\<close> "member not saved": the test of line 42 is on the parameter
  \<^verbatim>\<open>member\<close>, which is not nil there. When the re-folded read model does not hold the member,
  the result is \<^verbatim>\<open>readModelToMember\<close> applied to nil. A nil \<^verbatim>\<open>member\<close> ends the call before the
  load; and on no input at all does the error come from line 43: a call that returns it got
  it from the load, the push or the fold.
\<close>

theorem C3_AddIAMMember_never_member_not_saved:
  assumes valid: "IsValid deps (Some m)"
    and load: "es_FilterToQueryReducer es (store w) (NewReadModel deps (AggregateID m)) = Inr iam"
    and fresh: "\<forall>x\<in>set (Members iam). member_UserID x \<noteq> UserID m"
    and push: "es_PushAggregates es (store w)
                 [PushMemberAdded deps (UserID m) (Roles m) (AggregateFromReadModel deps iam)] =
               (Inr events, s2)"
    and refold: "AppendAndReduce deps events iam = Inr iam'"
  shows "AddIAMMember es deps (Some m) w =
           (Inr (readModelToMember deps (snd (MemberByUserID (Members iam') (UserID m)))),
            \<lparr>store = s2, calls = calls w @ [Call_FilterToQueryReducer, Call_PushAggregates]\<rparr>) \<and>
         fst (AddIAMMember es deps (Some m) w) \<noteq>
           Inl (Throw Internal ''IAM-nuoDN'' ''member not saved'') \<and>
         ((\<forall>x\<in>set (Members iam'). member_UserID x \<noteq> UserID m) \<longrightarrow>
            fst (AddIAMMember es deps (Some m) w) = Inr (readModelToMember deps None)) \<and>
         snd (AddIAMMember es deps None w) = w \<and>
         fst (AddIAMMember es deps None w) \<noteq> Inl (Throw Internal ''IAM-nuoDN'' ''member not saved'') \<and>
         (\<forall>member' w'.
            fst (AddIAMMember es deps member' w') =
              Inl (Throw Internal ''IAM-nuoDN'' ''member not saved'') \<longrightarrow>
            (\<exists>m'. member' = Some m' \<and>
               (es_FilterToQueryReducer es (store w') (NewReadModel deps (AggregateID m')) =
                  Inl (Throw Internal ''IAM-nuoDN'' ''member not saved'') \<or>
                (\<exists>iam. es_FilterToQueryReducer es (store w') (NewReadModel deps (AggregateID m')) =
                         Inr iam \<and>
                   (fst (es_PushAggregates es (store w')
                          [PushMemberAdded deps (UserID m') (Roles m')
                             (AggregateFromReadModel deps iam)]) =
                      Inl (Throw Internal ''IAM-nuoDN'' ''member not saved'') \<or>
                    (\<exists>events. fst (es_PushAggregates es (store w')
                          [PushMemberAdded deps (UserID m') (Roles m')
                             (AggregateFromReadModel deps iam)]) = Inr events \<and>
                       AppendAndReduce deps events iam =
                         Inl (Throw Internal ''IAM-nuoDN'' ''member not saved'')))))))"
proof -
  have first: "AddIAMMember es deps (Some m) w =
           (Inr (readModelToMember deps (snd (MemberByUserID (Members iam') (UserID m)))),
            \<lparr>store = s2, calls = calls w @ [Call_FilterToQueryReducer, Call_PushAggregates]\<rparr>)"
    using valid load push refold MemberByUserID_absent [OF fresh]
    by (simp add: AddIAMMember_def iamByID_def called_def split: prod.splits)
  have nil: "snd (AddIAMMember es deps None w) = w"
    "fst (AddIAMMember es deps None w) \<noteq> Inl (Throw Internal ''IAM-nuoDN'' ''member not saved'')"
    by (simp_all add: AddIAMMember_nil_member)
  show ?thesis
    using first nil AddIAMMember_member_not_saved_origin [of es deps]
    by (simp add: MemberByUserID_absent)
qed

text \<open>
  An event store that returns no pushed events: the member \<open>u2\<close> is pushed, is not in the
  re-folded read model, and the command returns \<^verbatim>\<open>readModelToMember(nil)\<close> without an error.
\<close>

theorem C3_member_absent_after_push_witness:
  "AddIAMMember silent_eventstore scenario_iam_repo
           (Some \<lparr>AggregateID = ''iam-1'', UserID = ''u2'', Roles = [''B'']\<rparr>)
           \<lparr>store = log_S1, calls = []\<rparr> =
     (Inr None,
      \<lparr>store = log_S1 @ [MemberAdded ''iam-1'' ''u2'' [''B'']],
       calls = [Call_FilterToQueryReducer, Call_PushAggregates]\<rparr>)"
  using C3_AddIAMMember_never_member_not_saved
          [of scenario_iam_repo "\<lparr>AggregateID = ''iam-1'', UserID = ''u2'', Roles = [''B'']\<rparr>"
              silent_eventstore "\<lparr>store = log_S1, calls = []\<rparr>"
              "\<lparr>Members = [\<lparr>member_UserID = ''u1'', member_Roles = [''A'']\<rparr>], \<dots> = ''iam-1''\<rparr>"
              "[]" "log_S1 @ [MemberAdded ''iam-1'' ''u2'' [''B'']]"
              "\<lparr>Members = [\<lparr>member_UserID = ''u1'', member_Roles = [''A'']\<rparr>], \<dots> = ''iam-1''\<rparr>"]
  by (simp add: scenario_iam_repo_def scenario_eventstore_def silent_eventstore_def log_S1_def
        MemberByUserID_def)

text \<open>
  Claim C4. Whenever \<^verbatim>\<open>RemoveIAMMember\<close> is called and the read model it loads holds no member
  with the given \<^verbatim>\<open>UserID\<close>, it returns the nil error; the only call it has made to the event
  store is the load, so \<^verbatim>\<open>PushAggregates\<close> is not invoked and the log is unchanged.
\<close>

theorem C4_RemoveIAMMember_absent_member_is_noop:
  assumes load: "es_FilterToQueryReducer es (store w) (NewReadModel deps (AggregateID m)) = Inr iam"
    and absent: "\<forall>x\<in>set (Members iam). member_UserID x \<noteq> UserID m"
  shows "RemoveIAMMember es deps (Some m) w =
           (None, w\<lparr>calls := calls w @ [Call_FilterToQueryReducer]\<rparr>) \<and>
         store (snd (RemoveIAMMember es deps (Some m) w)) = store w \<and>
         calls (snd (RemoveIAMMember es deps (Some m) w)) = calls w @ [Call_FilterToQueryReducer]"
  using load MemberByUserID_absent [OF absent]
  by (simp add: RemoveIAMMember_def iamByID_def called_def)

text \<open>Scenario S5: the log holds only \<open>u1\<close>, and \<open>u99\<close> is removed.\<close>

theorem C4_scenario_S5_witness:
  "RemoveIAMMember scenario_eventstore scenario_iam_repo
           (Some \<lparr>AggregateID = ''iam-1'', UserID = ''u99'', Roles = []\<rparr>)
           \<lparr>store = log_S1, calls = []\<rparr> =
     (None, \<lparr>store = log_S1, calls = [Call_FilterToQueryReducer]\<rparr>)"
  using C4_RemoveIAMMember_absent_member_is_noop
          [of scenario_eventstore "\<lparr>store = log_S1, calls = []\<rparr>" scenario_iam_repo
              "\<lparr>AggregateID = ''iam-1'', UserID = ''u99'', Roles = []\<rparr>"
              "\<lparr>Members = [\<lparr>member_UserID = ''u1'', member_Roles = [''A'']\<rparr>], \<dots> = ''iam-1''\<rparr>"]
  by (simp add: scenario_iam_repo_def scenario_eventstore_def log_S1_def)

text \<open>
  Claim C9. For every call \<^verbatim>\<open>MemberByID(iamID, userID)\<close> the query handed to \<^verbatim>\<open>FilterToReducer\<close>
  (in the one call the function makes to the event store) selects full event columns, the
  IAM aggregate type and no other, the aggregate id \<^verbatim>\<open>iamID\<close> and no other, and the single data
  predicate \<^verbatim>\<open>userId == userID\<close>; the function returns what \<^verbatim>\<open>FilterToReducer\<close> made of a new
  member read model, or its error. In the in-memory event store of the scenarios the events
  folded into the read model are those of the log with that aggregate id and that user.
\<close>

theorem C9_MemberByID_query:
  "MemberByID es deps iam_id user_id w =
     (case es_FilterToReducer es (store w)
             (Some (MemberByID_query (iam_AggregateType deps) iam_id user_id))
             (NewMemberReadModel deps) of
        Inl err \<Rightarrow> Inl err | Inr member \<Rightarrow> Inr member,
      w\<lparr>calls := calls w @
         [Call_FilterToReducer (Some (MemberByID_query (iam_AggregateType deps) iam_id user_id))]\<rparr>) \<and>
   MemberByID_query (iam_AggregateType deps) iam_id user_id =
     \<lparr>columns = ColumnsEvent, limit = 0, desc = False, aggregateTypes = [iam_AggregateType deps],
      aggregateIDs = [iam_id], eventTypes = [], resourceOwner = [], sequenceGreater = 0,
      sequenceLess = 0, dataPredicates = [(''userId'', user_id)]\<rparr> \<and>
   fst (MemberByID scenario_eventstore scenario_iam_repo iam_id user_id \<lparr>store = log, calls = cs\<rparr>) =
     Inr (filter (\<lambda>e. event_aggregate e = iam_id \<and> event_user e = user_id) log)"
proof -
  have "scenario_matches (MemberByID_query ''iam'' iam_id user_id) =
        (\<lambda>e. event_aggregate e = iam_id \<and> event_user e = user_id)"
    by (auto simp: scenario_matches_def MemberByID_query_def NewSearchQueryFactory_def
          AggregateIDs_def EventData_def)
  then show ?thesis
    by (simp add: MemberByID_def MemberByID_query_def called_def NewSearchQueryFactory_def
        AggregateIDs_def EventData_def scenario_eventstore_def scenario_iam_repo_def split: sum.splits)
qed

text \<open>Scenario S4: the log holds events of several members of \<open>iam-1\<close> and of another aggregate.\<close>

theorem C9_scenario_S4_witness:
  "fst (MemberByID scenario_eventstore scenario_iam_repo ''iam-1'' ''u1''
     \<lparr>store = [MemberAdded ''iam-1'' ''u1'' [''A''], MemberAdded ''iam-1'' ''u2'' [''B''],
               MemberAdded ''iam-2'' ''u1'' [''C''], MemberRemoved ''iam-1'' ''u1''],
      calls = []\<rparr>) =
   Inr [MemberAdded ''iam-1'' ''u1'' [''A''], MemberRemoved ''iam-1'' ''u1'']"
  using C9_MemberByID_query [of scenario_eventstore scenario_iam_repo "''iam-1''" "''u1''"
          "\<lparr>store = [], calls = []\<rparr>"
          "[MemberAdded ''iam-1'' ''u1'' [''A''], MemberAdded ''iam-1'' ''u2'' [''B''],
            MemberAdded ''iam-2'' ''u1'' [''C''], MemberRemoved ''iam-1'' ''u1'']" "[]"]
  by simp

subsection \<open>Payloads\<close>

lemma scalar_is_no_object: "is_scalar v \<Longrightarrow> \<not> is_object_kind v"
  by (induction v rule: is_scalar.induct) simp_all

text \<open>
  The two kinds and the JSON they marshal to: the text of a map or struct-like value opens an
  object, the text of a scalar never does.
\<close>

lemma object_kind_marshals_as_object:
  "is_object_kind v \<Longrightarrow> json_Marshal v = Some out \<Longrightarrow> \<exists>rest. out = CHR ''{'' # rest"
  by (induction v arbitrary: out rule: is_object_kind.induct) (auto split: option.splits)

lemma decimal_not_object: "\<exists>c rest. decimal n = c # rest \<and> c \<noteq> CHR ''{''"
proof (induction n rule: decimal.induct)
  case (1 n)
  show ?case
  proof (cases "n < 10")
    case True
    have "of_char (char_of (n + 48) :: char) = (n + 48) mod 256" by simp
    with True have a: "of_char (char_of (n + 48) :: char) = n + 48" by simp
    have b: "of_char (CHR ''{'') = (123 :: nat)" by simp
    have "char_of (n + 48) \<noteq> CHR ''{''"
    proof
      assume "char_of (n + 48) = CHR ''{''"
      then have "of_char (char_of (n + 48) :: char) = (of_char (CHR ''{'') :: nat)" by (rule arg_cong)
      with a b have "n + 48 = 123" by simp
      with True show False by simp
    qed
    then show ?thesis using True by (subst decimal.simps) simp
  next
    case False
    with 1 obtain c rest where "decimal (n div 10) = c # rest" "c \<noteq> CHR ''{''" by blast
    then show ?thesis using False by (subst decimal.simps) simp
  qed
qed

lemma scalar_marshals_as_no_object:
  "is_scalar v \<Longrightarrow> json_Marshal v = Some out \<Longrightarrow> \<exists>c rest. out = c # rest \<and> c \<noteq> CHR ''{''"
proof (induction v arbitrary: out rule: is_scalar.induct)
  case (2 i)
  obtain c rest where "decimal (nat i) = c # rest" "c \<noteq> CHR ''{''"
    using decimal_not_object by blast
  with 2 show ?case by (auto simp: json_int_def)
qed (auto simp: json_string_def)

text \<open>
  Claim C7. When an event is serialised at push time (\<^verbatim>\<open>eventData\<close>), a nil payload is legal and
  gives nil data without an error; bytes that are a valid JSON object are accepted as they
  are; a map or struct-like value (also behind a pointer) that marshals is accepted with its
  JSON text; a scalar at the top level, or a pointer to one, is rejected with an error.
\<close>

theorem C7_eventData_payload_rules:
  "eventData NoData = Inr None \<and>
   (is_json_object text \<longrightarrow> eventData (JSONBytes text) = Inr (Some text)) \<and>
   (is_object_kind v \<and> json_Marshal v = Some text \<longrightarrow> eventData (Value v) = Inr (Some text)) \<and>
   (is_scalar v \<longrightarrow> eventData (Value v) = Inl (Throw InvalidArgument [] []))"
  by (simp add: eventData_def scalar_is_no_object)

lemmas json_defs = is_json_object_def json_Valid_def begin_value_def after_value_def is_space_def
  is_digit_def json_string_def json_escape_def

text \<open>The rows of \<^verbatim>\<open>Test_eventData\<close> that the test wants accepted, and its two scalars.\<close>

theorem C7_Test_eventData_witness:
  \<open>eventData (JSONBytes ''{"piff":"paff"}'') = Inr (Some ''{"piff":"paff"}'') \<and>
   eventData (Value (GoStruct [(''piff'', GoString ''paff'')])) = Inr (Some ''{"piff":"paff"}'') \<and>
   eventData (Value (GoPtr (GoStruct [(''piff'', GoString ''paff'')]))) = Inr (Some ''{"piff":"paff"}'') \<and>
   eventData NoData = Inr None \<and>
   eventData (Value (GoString [])) = Inl (Throw InvalidArgument [] []) \<and>
   eventData (Value (GoPtr (GoString []))) = Inl (Throw InvalidArgument [] [])\<close>
  using C7_eventData_payload_rules [of \<open>''{"piff":"paff"}''\<close> "GoStruct [(''piff'', GoString ''paff'')]"]
    C7_eventData_payload_rules [of \<open>''{"piff":"paff"}''\<close> "GoPtr (GoStruct [(''piff'', GoString ''paff'')])"]
    C7_eventData_payload_rules [of "[]" "GoString []"]
    C7_eventData_payload_rules [of "[]" "GoPtr (GoString [])"]
  by (simp add: json_defs)

text \<open>The other two rows of \<^verbatim>\<open>Test_eventData\<close>: bytes that are no JSON, a struct that does not marshal.\<close>

lemma Test_eventData_rejections:
  \<open>eventData (JSONBytes ''{"piffpaff"}'') = Inl (Throw InvalidArgument [] []) \<and>
   eventData (Value (GoStruct [(''field'', GoChan)])) = Inl (Throw InvalidArgument [] [])\<close>
  by (simp add: eventData_def json_defs)

subsection \<open>The links of a batch\<close>

text \<open>
  \<^verbatim>\<open>linkEvents\<close> on events at different addresses points every event of its argument but the
  first at the event just before it in the argument, and leaves the first as it was;
  \<^verbatim>\<open>combineEventLists\<close> is the concatenation.
\<close>

lemma fold_link_nth:
  assumes "distinct events" and "\<forall>a\<in>set events. a < length h"
    and "\<forall>k\<in>set ks. k < length events" and "distinct ks" and "i < length events"
  shows "fold (\<lambda>i h. h[events ! i := (h ! (events ! i))\<lparr>PreviousEvent := Some (events ! (i - 1))\<rparr>]) ks h !
           (events ! i) =
         (if i \<in> set ks then (h ! (events ! i))\<lparr>PreviousEvent := Some (events ! (i - 1))\<rparr>
          else h ! (events ! i))"
  using assms
proof (induction ks arbitrary: h)
  case Nil
  then show ?case by simp
next
  case (Cons k ks)
  let ?h1 = "h[events ! k := (h ! (events ! k))\<lparr>PreviousEvent := Some (events ! (k - 1))\<rparr>]"
  from Cons.prems have k: "k < length events" and ki: "k \<notin> set ks" by simp_all
  from Cons.prems have bound: "events ! k < length h" "events ! i < length h" by simp_all
  have same: "events ! i = events ! k \<longleftrightarrow> i = k"
    using Cons.prems(1,5) k by (simp add: nth_eq_iff_index_eq)
  have IH: "fold (\<lambda>i h. h[events ! i := (h ! (events ! i))\<lparr>PreviousEvent := Some (events ! (i - 1))\<rparr>]) ks ?h1 !
              (events ! i) =
            (if i \<in> set ks then (?h1 ! (events ! i))\<lparr>PreviousEvent := Some (events ! (i - 1))\<rparr>
             else ?h1 ! (events ! i))"
    using Cons.prems by (intro Cons.IH) simp_all
  show ?case
  proof (cases "i = k")
    case True
    with IH ki have "fold (\<lambda>i h. h[events ! i := (h ! (events ! i))\<lparr>PreviousEvent := Some (events ! (i - 1))\<rparr>]) ks ?h1 !
              (events ! i) = ?h1 ! (events ! i)"
      by simp
    also have "\<dots> = (h ! (events ! i))\<lparr>PreviousEvent := Some (events ! (i - 1))\<rparr>"
      using bound True by simp
    finally show ?thesis using True by simp
  next
    case False
    with same have "events ! i \<noteq> events ! k" by simp
    then have h1: "?h1 ! (events ! i) = h ! (events ! i)" by simp
    have "fold (\<lambda>i h. h[events ! i := (h ! (events ! i))\<lparr>PreviousEvent := Some (events ! (i - 1))\<rparr>]) ks ?h1 !
              (events ! i) =
            (if i \<in> set ks then (h ! (events ! i))\<lparr>PreviousEvent := Some (events ! (i - 1))\<rparr>
             else h ! (events ! i))"
      using IH unfolding h1 .
    with False show ?thesis by simp
  qed
qed

lemma linkEvents_links:
  assumes "distinct events" and "\<forall>a\<in>set events. a < length h" and "i < length events"
  shows "fst (linkEvents events h) = events \<and>
         snd (linkEvents events h) ! (events ! i) =
           (if i = 0 then h ! (events ! 0)
            else (h ! (events ! i))\<lparr>PreviousEvent := Some (events ! (i - 1))\<rparr>)"
proof -
  have "i \<in> set [1..<length events] \<longleftrightarrow> i \<noteq> 0" using assms(3) by auto
  then show ?thesis
    using fold_link_nth [OF assms(1,2), of "[1..<length events]" i] assms(3)
    by (simp add: linkEvents_def)
qed

lemma combineEventLists_concat: "combineEventLists event_lists = concat event_lists"
proof -
  have "fold (\<lambda>list events. events @ list) event_lists acc = acc @ concat event_lists" for acc
    by (induction event_lists arbitrary: acc) simp_all
  then show ?thesis by (simp add: combineEventLists_def)
qed

lemma multiple_aggregates_expected_events: "multiple_aggregates_expected =
     ([0, 1, 2],
      [expected_event ''1'' False,
       (expected_event ''1'' False)\<lparr>PreviousEvent := Some 0\<rparr>,
       expected_event ''2'' True])"
  by (simp add: multiple_aggregates_expected_def expected_event_def linkEvents_def combineEventLists_def)

lemma compareEvents_link: "compareEvents want got = [] \<Longrightarrow> (PreviousEvent want = None) = (PreviousEvent got = None)"
  by (auto simp: compareEvents_def split: if_splits)


text \<open>
  What the test pins of a result it accepts for that batch: three events, of which the
  second is linked and the first and the third are not.
\<close>

lemma test_accepts_links_within_aggregate_only:
  "(distinct linked \<and> (\<forall>a\<in>set linked. a < length h0) \<longrightarrow>
      (\<forall>i<length linked.
         PreviousEvent (snd (linkEvents linked h0) ! (linked ! i)) =
           (if i = 0 then PreviousEvent (h0 ! (linked ! 0)) else Some (linked ! (i - 1))))) \<and>
   combineEventLists event_lists = concat event_lists \<and>
   (accepted False multiple_aggregates_expected (Inr (events, h)) \<longrightarrow>
      length events = 3 \<and>
      PreviousEvent (h ! (events ! 0)) = None \<and>
      PreviousEvent (h ! (events ! 1)) \<noteq> None \<and>
      PreviousEvent (h ! (events ! 2)) = None)"
proof -
  have links: "\<forall>i<length linked.
         PreviousEvent (snd (linkEvents linked h0) ! (linked ! i)) =
           (if i = 0 then PreviousEvent (h0 ! (linked ! 0)) else Some (linked ! (i - 1)))"
    if "distinct linked" "\<forall>a\<in>set linked. a < length h0"
    using linkEvents_links [OF that] by simp
  have test: "length events = 3 \<and>
      PreviousEvent (h ! (events ! 0)) = None \<and>
      PreviousEvent (h ! (events ! 1)) \<noteq> None \<and>
      PreviousEvent (h ! (events ! 2)) = None"
    if "accepted False multiple_aggregates_expected (Inr (events, h))"
  proof -
    from that have len: "length events = 3"
      by (simp add: accepted_def test_report_def multiple_aggregates_expected_events split: if_splits)
    from that len
    have "compareEvents (expected_event ''1'' False) (h ! (events ! 0)) = []"
      "compareEvents ((expected_event ''1'' False)\<lparr>PreviousEvent := Some 0\<rparr>) (h ! (events ! 1)) = []"
      "compareEvents (expected_event ''2'' True) (h ! (events ! 2)) = []"
      by (simp_all add: accepted_def test_report_def multiple_aggregates_expected_events numeral_2_eq_2)
    from this [THEN compareEvents_link] len show ?thesis
      by (simp add: expected_event_def)
  qed
  show ?thesis using links test combineEventLists_concat by blast
qed

text \<open>
  \<^verbatim>\<open>aggregatesToEvents\<close>: its heap is the heap it was given followed by the batch, one chain
  per aggregate, and its events are the addresses of the batch in order.
\<close>

lemma chain_Nil: "chain aggregate previous b [] = []"
  by (simp add: chain_def)

lemma upt_Suc_shift: "[b..<b + Suc n] = b # [Suc b..<Suc b + n]"
proof -
  have "b < b + Suc n" by simp
  then have "[b..<b + Suc n] = b # [Suc b..<b + Suc n]" by (rule upt_conv_Cons)
  then show ?thesis by simp
qed

lemma chain_Cons:
  "chain aggregate previous b (event # events) =
     newEvent aggregate event
       (case eventData (event_Data event) of Inl err \<Rightarrow> None | Inr data \<Rightarrow> data) previous #
     chain aggregate (Some b) (Suc b) events"
proof -
  have "[b..<b + length (event # events)] = b # [Suc b..<Suc b + length events]"
    using upt_Suc_shift [of b "length events"] by simp
  then show ?thesis unfolding chain_def by simp
qed

lemma length_chain: "length (chain aggregate previous b events) = length events"
  by (simp add: chain_def)

lemma length_batch:
  "length (batch aggregates b) = sum_list (map (\<lambda>a. length (aggregate_Events a)) aggregates)"
  by (induction aggregates arbitrary: b) (simp_all add: length_chain)
















text \<open>\<^verbatim>\<open>aggregatesToEvents\<close> passes the four rows of \<^verbatim>\<open>TestEventstore_aggregatesToEvents\<close>.\<close>

lemma aggregatesToEvents_passes_its_test:
  "accepted False one_aggregate_one_event_expected (aggregatesToEvents one_aggregate_one_event [])"
  "accepted False one_aggregate_multiple_events_expected (aggregatesToEvents one_aggregate_multiple_events [])"
  "accepted True ([], []) (aggregatesToEvents invalid_data [])"
  "accepted False multiple_aggregates_expected (aggregatesToEvents multiple_aggregates [])"
  by (simp_all add: accepted_def test_report_def aggregatesToEvents_def one_aggregate_one_event_def
        one_aggregate_one_event_expected_def one_aggregate_multiple_events_def
        one_aggregate_multiple_events_expected_def invalid_data_def multiple_aggregates_def
        multiple_aggregates_expected_def testAggregate_def testEvent_def eventData_def newEvent_def
        expected_event_def linkEvents_def combineEventLists_def compareEvents_def upt_rec)

subsection \<open>The event mappers\<close>

text \<open>
  Claim C8, as stated, fails when the event type is registered already: the row "existing
  interceptor existing filter mapper" has a decoder under \<^verbatim>\<open>event.type\<close>; registering a valid
  decoder under \<^verbatim>\<open>event.type\<close> again leaves one entry in the table and adds none.
\<close>

theorem C8_counterexample_registered_twice:
  "mapperCount (RegisterFilterEventMapper ''event.type'' (Some unimplemented_mapper) empty_eventstore) = 1 \<and>
   mapperCount (RegisterFilterEventMapper ''event.type'' (Some testFilterMapper)
      (RegisterFilterEventMapper ''event.type'' (Some unimplemented_mapper) empty_eventstore)) = 1 \<and>
   \<not> adds_one_entry
       (RegisterFilterEventMapper ''event.type'' (Some unimplemented_mapper) empty_eventstore)
       (RegisterFilterEventMapper ''event.type'' (Some testFilterMapper)
          (RegisterFilterEventMapper ''event.type'' (Some unimplemented_mapper) empty_eventstore))"
  by (simp add: adds_one_entry_def mapperCount_def RegisterFilterEventMapper_def empty_eventstore_def)

text \<open>
  Claim C8, amended. A call to \<^verbatim>\<open>RegisterFilterEventMapper\<close> with an empty event type or a nil
  mapper returns the event store unchanged, and there is no error to return. Registering a
  valid pair stores the mapper under its type and changes no other entry and not the port:
  the table has exactly one entry more when the type had none, and as many as before when the
  type had one, whose decoder is replaced.
\<close>

theorem C8_RegisterFilterEventMapper:
  "(eventType = [] \<or> mapper = None \<longrightarrow> RegisterFilterEventMapper eventType mapper es = es) \<and>
   (eventType \<noteq> [] \<longrightarrow>
      repo (RegisterFilterEventMapper eventType (Some decoder) es) = repo es \<and>
      (\<forall>t. t \<noteq> eventType \<longrightarrow>
         eventMapper (RegisterFilterEventMapper eventType (Some decoder) es) t = eventMapper es t) \<and>
      (\<exists>i. eventMapper (RegisterFilterEventMapper eventType (Some decoder) es) eventType = Some i \<and>
           eventTypeInterceptors.eventMapper i = Some decoder) \<and>
      (finite (dom (eventMapper es)) \<longrightarrow>
         mapperCount (RegisterFilterEventMapper eventType (Some decoder) es) =
           (if eventType \<in> dom (eventMapper es) then mapperCount es else mapperCount es + 1)))"
  by (auto simp: RegisterFilterEventMapper_def Let_def mapperCount_def insert_absorb
        split: option.splits)

text \<open>The rows "no event type", "no event mapper" and "new interceptor" of the registration test.\<close>

theorem C8_Test_RegisterFilterEventMapper_witness:
  "RegisterFilterEventMapper [] (Some testFilterMapper) empty_eventstore = empty_eventstore \<and>
   RegisterFilterEventMapper ''event.type'' None empty_eventstore = empty_eventstore \<and>
   mapperCount (RegisterFilterEventMapper ''event.type'' (Some testFilterMapper) empty_eventstore) = 1"
  using C8_RegisterFilterEventMapper [of "[]" "Some testFilterMapper" empty_eventstore testFilterMapper]
    C8_RegisterFilterEventMapper [of "''event.type''" None empty_eventstore testFilterMapper]
  by (simp add: empty_eventstore_def mapperCount_def)

lemma mapEvents_unknown_type:
  "no_decoder es (Type event) \<Longrightarrow> list_all (decodes es) before \<Longrightarrow>
   mapEvents es (before @ event # after) = Inl (Throw UnknownEventType [] [])"
proof (induction before)
  case Nil
  then show ?case by (simp add: no_decoder_def split: option.splits)
next
  case (Cons x before)
  then show ?case by (simp add: decodes_def split: option.splits sum.splits)
qed

lemma mapEvents_error_if_unknown:
  "no_decoder es (Type event) \<Longrightarrow> event \<in> set events \<Longrightarrow> \<exists>err. mapEvents es events = Inl err"
proof (induction events)
  case Nil
  then show ?case by simp
next
  case (Cons x events)
  then show ?case by (auto simp: no_decoder_def split: option.splits sum.splits)
qed

text \<open>
  Claim C5. For every stored event whose event type has no registered decoder, \<^verbatim>\<open>mapEvents\<close>
  returns an UnknownEventType error and no mapped events when it comes to that event (the
  events before it in the list decode), and so does \<^verbatim>\<open>FilterEvents\<close> when the port returns
  such a list; whatever stands before the event, a list that holds it is never mapped.
\<close>

theorem C5_mapEvents_unknown_event_type:
  assumes unknown: "no_decoder es (Type event)"
    and earlier: "list_all (decodes es) before"
  shows "mapEvents es (before @ event # after) = Inl (Throw UnknownEventType [] []) \<and>
         (\<forall>f w. aggregateTypes f \<noteq> [] \<and>
                repo_Filter (repo es) f (port_state w) = Inr (before @ event # after) \<longrightarrow>
                fst (FilterEvents es (Some f) w) = Inl (Throw UnknownEventType [] [])) \<and>
         (\<forall>events. event \<in> set events \<longrightarrow> (\<exists>err. mapEvents es events = Inl err))"
  using mapEvents_unknown_type [OF unknown earlier] mapEvents_error_if_unknown [OF unknown]
  by (simp add: FilterEvents_def build_def)

text \<open>The row "no mapper" of \<^verbatim>\<open>TestEventstore_mapEvents\<close>, and a filter over a store that holds the event.\<close>

theorem C5_no_mapper_witness:
  "mapEvents empty_eventstore [unregistered_event] = Inl (Throw UnknownEventType [] []) \<and>
   fst (FilterEvents empty_eventstore
          (Some (NewSearchQueryFactory ColumnsEvent [''test.aggregate'']))
          (empty_testRepo\<lparr>port_state :=
             \<lparr>testRepo_events = [unregistered_event], testRepo_sequence = 0, testRepo_err = None\<rparr>\<rparr>)) =
     Inl (Throw UnknownEventType [] [])"
  using C5_mapEvents_unknown_event_type [of empty_eventstore unregistered_event "[]" "[]"]
  by (simp add: empty_eventstore_def no_decoder_def testRepo_port_def empty_testRepo_def
        NewSearchQueryFactory_def)

subsection \<open>Invalid queries\<close>

text \<open>
  Claim C6. For every missing or invalid search query (a nil query factory, or one without an
  aggregate type) \<^verbatim>\<open>FilterEvents\<close>, \<^verbatim>\<open>FilterToReducer\<close> and \<^verbatim>\<open>LatestSequence\<close> return an
  InvalidQuery error and leave the state as it was: the store is untouched and no call to
  the persistence port is recorded.
\<close>

theorem C6_invalid_query_never_reaches_port:
  assumes "invalid_query queryFactory"
  shows "FilterEvents es queryFactory w = (Inl (Throw InvalidQuery [] []), w) \<and>
         FilterToReducer es queryFactory ops r w = (Inl (Throw InvalidQuery [] []), w) \<and>
         LatestSequence es queryFactory w = (Inl (Throw InvalidQuery [] []), w)"
  using assms
  by (simp add: invalid_query_def FilterEvents_def FilterToReducer_def LatestSequence_def build_def
       split: option.splits)

text \<open>The row "invalid factory" of the three tests: a nil factory.\<close>

theorem C6_invalid_factory_witness:
  "FilterEvents empty_eventstore None empty_testRepo = (Inl (Throw InvalidQuery [] []), empty_testRepo) \<and>
   FilterToReducer empty_eventstore None testReducer_ops
       \<lparr>testReducer_events = [], testReducer_expectedLength = 0, testReducer_err = None\<rparr> empty_testRepo =
     (Inl (Throw InvalidQuery [] []), empty_testRepo) \<and>
   LatestSequence empty_eventstore None empty_testRepo = (Inl (Throw InvalidQuery [] []), empty_testRepo) \<and>
   port_calls empty_testRepo = []"
  using C6_invalid_query_never_reaches_port [of None empty_eventstore empty_testRepo testReducer_ops
          "\<lparr>testReducer_events = [], testReducer_expectedLength = 0, testReducer_err = None\<rparr>"]
  by (simp add: invalid_query_def empty_testRepo_def)

end
